theory Spec2Isabelle
  imports Main "HOL-Library.Word" "HOL-Library.Sublist"
begin

unbundle bit_operations_syntax

section \<open>Bitstream repacker (vaapi-decoder.c, convert_mp4_nal_units_to_annex_b)\<close>

text \<open>
  Bytes are \<open>uint8_t\<close>; the NAL length is a \<open>uint32_t\<close> assembled by shifts and ORs.
  Positions and sizes are \<open>size_t\<close>. They are modelled as \<open>nat\<close>: the model is of the
  64-bit build, where every sum the loop forms is at most \<open>size + 2^32 + 1028\<close> and so
  cannot wrap for a buffer that fits in memory. (With a 32-bit \<open>size_t\<close> the sum
  \<open>pos + nal_length\<close> could wrap; that build is not what is modelled.)

  The C function returns \<open>false\<close> on both failures; the two ways of failing are kept apart
  by the value of the error.
\<close>

type_synonym byte = "8 word"

datatype error = MalformedBitstream | AllocationFailed

text \<open>
  \<open>(data[pos] << 24) | (data[pos + 1] << 16) | (data[pos + 2] << 8) | data[pos + 3]\<close>,
  stored in a \<open>uint32_t\<close>. The bytes are promoted to \<open>int\<close> before they are shifted; a
  first byte of \<open>0x80\<close> or more is shifted into the sign bit, and the \<open>uint32_t\<close> that
  results has that byte on top, as here.
\<close>

definition read_be32 :: "byte list \<Rightarrow> nat \<Rightarrow> 32 word" where
  "read_be32 data pos =
     (push_bit 24 (ucast (data ! pos)) OR push_bit 16 (ucast (data ! (pos + 1)))
      OR push_bit 8 (ucast (data ! (pos + 2))) OR ucast (data ! (pos + 3)))"

definition start_code :: "byte list" where
  "start_code = [0x00, 0x00, 0x00, 0x01]"

text \<open>
  The \<open>while (pos + 4 <= size)\<close> loop. \<open>buffer\<close> is the part of the output buffer written
  so far, so \<open>out_pos\<close> is \<open>length buffer\<close>; \<open>can_alloc n\<close> tells whether \<open>brealloc\<close> to
  \<open>n\<close> bytes succeeds. The loop reads \<open>data\<close> only below \<open>size = length data\<close>: the four
  length bytes under the loop guard, the payload under the length check.
\<close>

function convert_loop ::
  "(nat \<Rightarrow> bool) \<Rightarrow> byte list \<Rightarrow> nat \<Rightarrow> byte list \<Rightarrow> nat \<Rightarrow> error + byte list" where
  "convert_loop can_alloc data pos buffer estimated_size =
     (if pos + 4 \<le> length data then
        (let nal_length = unat (read_be32 data pos);
             pos1 = pos + 4;
             needed = length buffer + 4 + nal_length
         in if pos1 + nal_length > length data then Inl MalformedBitstream
            else if needed > estimated_size \<and> \<not> can_alloc (needed + 1024)
            then Inl AllocationFailed
            else convert_loop can_alloc data (pos1 + nal_length)
                   (buffer @ start_code @ take nal_length (drop pos1 data))
                   (if needed > estimated_size then needed + 1024 else estimated_size))
      else Inr buffer)"
  by pat_completeness auto
termination
  by (relation "measure (\<lambda>(can_alloc, data, pos, buffer, estimated_size). length data - pos)")
    auto

declare convert_loop.simps [simp del]

text \<open>
  The whole function: allocate \<open>size + 1024\<close> bytes, run the loop from position 0, hand
  back the first \<open>out_pos\<close> bytes of the buffer (\<open>*out_data\<close>, \<open>*out_size\<close>).
\<close>

definition convert_mp4_nal_units_to_annex_b ::
  "(nat \<Rightarrow> bool) \<Rightarrow> byte list \<Rightarrow> error + byte list" where
  "convert_mp4_nal_units_to_annex_b can_alloc data =
     (let estimated_size = length data + 1024
      in if \<not> can_alloc estimated_size then Inl AllocationFailed
         else convert_loop can_alloc data 0 [] estimated_size)"

text \<open>An allocator that never runs out of memory.\<close>

definition always_alloc :: "nat \<Rightarrow> bool" where
  "always_alloc n = True"

subsection \<open>The two framings, as the specification describes them\<close>

text \<open>
  Length-prefixed framing: each NAL unit preceded by its byte length as a 4-byte
  big-endian integer. Start-code framing: each NAL unit preceded by \<open>00 00 00 01\<close>.
\<close>

definition be32 :: "nat \<Rightarrow> byte list" where
  "be32 n = [of_nat (n div 2 ^ 24), of_nat (n div 2 ^ 16), of_nat (n div 2 ^ 8), of_nat n]"

definition length_prefixed :: "byte list list \<Rightarrow> byte list" where
  "length_prefixed nals = concat (map (\<lambda>p. be32 (length p) @ p) nals)"

definition start_coded :: "byte list list \<Rightarrow> byte list" where
  "start_coded nals = concat (map (\<lambda>p. start_code @ p) nals)"

definition nal_sizes_ok :: "byte list list \<Rightarrow> bool" where
  "nal_sizes_ok nals = list_all (\<lambda>p. length p < 2 ^ 32) nals"

section \<open>Video decoder (vaapi-decoder.c)\<close>

text \<open>
  The decoder calls into libva, libavcodec and libswscale. What those calls return is not
  decided by this program, so each result is a field of an environment record that the
  model takes as a parameter; nothing is assumed about it unless a theorem says so.
\<close>

datatype VAProfile =
  VAProfileMPEG2Simple | VAProfileH264High | VAProfileH264Main | VAProfileHEVCMain
  | VAProfileHEVCMain10 | VAProfileAV1Profile0 | VAProfileAV1Profile1

datatype AVPixelFormat = AV_PIX_FMT_YUV420P | AV_PIX_FMT_RGBA | AV_PIX_FMT_other nat

datatype sws_flag = SWS_BILINEAR | SWS_FULL_CHR_H_INP | SWS_FULL_CHR_H_INT

text \<open>The arguments a converter was built with by \<open>sws_getContext\<close>.\<close>

record SwsContext =
  srcW :: int
  srcH :: int
  srcFormat :: AVPixelFormat
  dstW :: int
  dstH :: int
  dstFormat :: AVPixelFormat
  sws_flags :: "sws_flag list"

text \<open>
  \<open>struct vaapi_decoder\<close>. Pointers are options (\<open>None\<close> is \<open>NULL\<close>), VA identifiers are
  numbers. The fields \<open>width\<close> and \<open>height\<close> of the C struct are \<open>decoder_width\<close> and
  \<open>decoder_height\<close> here, since the source context has fields of the same names.
\<close>

record vaapi_decoder =
  va_display :: "nat option"
  va_config :: nat
  va_context :: nat
  va_buffer :: nat
  va_profile :: VAProfile
  codec_ctx :: "nat option"
  sws_ctx :: "SwsContext option"
  decoder_width :: nat
  decoder_height :: nat
  pix_fmt :: AVPixelFormat

text \<open>The decoder as \<open>bzalloc\<close> leaves it: every field zero.\<close>

definition zeroed_decoder :: vaapi_decoder where
  "zeroed_decoder =
     \<lparr>va_display = None, va_config = 0, va_context = 0, va_buffer = 0,
      va_profile = VAProfileMPEG2Simple, codec_ctx = None, sws_ctx = None,
      decoder_width = 0, decoder_height = 0, pix_fmt = AV_PIX_FMT_YUV420P\<rparr>"

text \<open>
  A heap block, known by the number of bytes it was allocated with. The pixels that
  \<open>sws_scale\<close> writes into it are not modelled.
\<close>

datatype buffer = Buffer (alloc_size: nat)

section \<open>Source context (hang-source.c)\<close>

text \<open>
  \<open>struct hang_source\<close>, from the fields the two C files use (its header is not among the
  sources). The mutexes, the condition variables and the \<open>source\<close> back pointer are left
  out: the model is sequential. A queue is the list of its first \<open>frame_queue_len\<close>
  (\<open>audio_queue_len\<close>) entries, so the length field is the length of the list.
\<close>

type_synonym obs_source_frame = nat
type_synonym obs_source_audio = nat

record hang_source =
  url :: "string option"
  broadcast_path :: "string option"
  active :: bool
  session_id :: int
  subscription_id :: int
  vaapi_context :: "vaapi_decoder option"
  current_frame_data :: "buffer option"
  current_frame_size :: nat
  current_frame_width :: nat
  current_frame_height :: nat
  frame_queue_cap :: nat
  frame_queue :: "obs_source_frame list"
  audio_queue_cap :: nat
  audio_queue :: "obs_source_audio list"
  texture :: "nat option"
  width :: nat
  height :: nat

text \<open>
  What a lifecycle call does to the outside, in order: the lines \<open>hang-source.c\<close> logs at
  level ERROR or INFO (by their format strings) and the calls it makes into the MoQ
  library. The log lines of the decoder are not part of the trace.
\<close>

datatype log_level = LOG_ERROR | LOG_WARNING | LOG_INFO | LOG_DEBUG

datatype event =
  Log log_level string
  | Call_moq_session_connect string
  | Call_moq_session_close int
  | Call_moq_subscribe_create int string
  | Call_moq_subscribe_close int

subsection \<open>Results of external calls\<close>

text \<open>External results during \<open>activate\<close> (MoQ, libva, libavcodec, the audio decoder).\<close>

record activate_env =
  moq_session_connect_result :: int
  moq_subscribe_create_result :: int
  audio_decoder_init_result :: bool
  drm_open_ok :: bool
  vaGetDisplayDRM_result :: "nat option"
  vaInitialize_ok :: bool
  vaCreateConfig_result :: "VAProfile \<Rightarrow> nat option"
  vaCreateContext_result :: "nat option"
  avcodec_find_decoder_ok :: bool
  avcodec_alloc_context3_result :: "nat option"
  avcodec_open2_result :: int

text \<open>
  External results during the decoding of one access unit. \<open>frame_width\<close>,
  \<open>frame_height\<close> and \<open>frame_format\<close> are the fields of the \<open>AVFrame\<close> that
  \<open>avcodec_receive_frame\<close> fills in when it succeeds.
\<close>

record decode_env =
  bzalloc_ok :: "nat \<Rightarrow> bool"
  av_packet_alloc_ok :: bool
  avcodec_send_packet_result :: int
  av_frame_alloc_ok :: bool
  avcodec_receive_frame_result :: int
  frame_width :: int
  frame_height :: int
  frame_format :: AVPixelFormat
  sws_getContext_ok :: bool
  sws_scale_result :: int

subsection \<open>Decoder set-up and tear-down\<close>

text \<open>
  \<open>vaapi_init_display\<close>. When \<open>vaInitialize\<close> fails the display is terminated but the
  field \<open>va_display\<close> keeps the pointer.
\<close>

definition vaapi_init_display :: "activate_env \<Rightarrow> vaapi_decoder \<Rightarrow> bool \<times> vaapi_decoder" where
  "vaapi_init_display env decoder =
     (if \<not> drm_open_ok env then (False, decoder)
      else let decoder1 = decoder\<lparr>va_display := vaGetDisplayDRM_result env\<rparr>
           in if va_display decoder1 = None then (False, decoder1)
              else if \<not> vaInitialize_ok env then (False, decoder1)
              else (True, decoder1))"

definition profiles :: "VAProfile list" where
  "profiles = [VAProfileH264High, VAProfileH264Main, VAProfileHEVCMain,
               VAProfileHEVCMain10, VAProfileAV1Profile0, VAProfileAV1Profile1]"

text \<open>The \<open>for\<close> loop of \<open>vaapi_create_config\<close> over the remaining profiles.\<close>

fun create_config_loop ::
  "activate_env \<Rightarrow> VAProfile list \<Rightarrow> vaapi_decoder \<Rightarrow> bool \<times> vaapi_decoder" where
  "create_config_loop env [] decoder = (False, decoder)"
| "create_config_loop env (p # ps) decoder =
     (case vaCreateConfig_result env p of
        Some config \<Rightarrow> (True, decoder\<lparr>va_config := config, va_profile := p\<rparr>)
      | None \<Rightarrow> create_config_loop env ps decoder)"

definition vaapi_create_config :: "activate_env \<Rightarrow> vaapi_decoder \<Rightarrow> bool \<times> vaapi_decoder" where
  "vaapi_create_config env decoder = create_config_loop env profiles decoder"

definition vaapi_create_context :: "activate_env \<Rightarrow> vaapi_decoder \<Rightarrow> bool \<times> vaapi_decoder" where
  "vaapi_create_context env decoder =
     (let decoder1 = decoder\<lparr>decoder_width := 1920, decoder_height := 1080\<rparr>
      in case vaCreateContext_result env of
           None \<Rightarrow> (False, decoder1)
         | Some c \<Rightarrow> (True, decoder1\<lparr>va_context := c\<rparr>))"

definition vaapi_cleanup :: "vaapi_decoder \<Rightarrow> vaapi_decoder" where
  "vaapi_cleanup decoder =
     (let decoder1 = (if va_context decoder \<noteq> 0 then decoder\<lparr>va_context := 0\<rparr> else decoder);
          decoder2 = (if va_config decoder1 \<noteq> 0 then decoder1\<lparr>va_config := 0\<rparr> else decoder1)
      in if va_display decoder2 \<noteq> None then decoder2\<lparr>va_display := None\<rparr> else decoder2)"

text \<open>The label \<open>software_fallback\<close> of \<open>vaapi_decoder_init\<close> and what follows it.\<close>

definition software_fallback ::
  "activate_env \<Rightarrow> vaapi_decoder \<Rightarrow> hang_source \<Rightarrow> bool \<times> hang_source" where
  "software_fallback env decoder context =
     (if \<not> avcodec_find_decoder_ok env then (False, context\<lparr>vaapi_context := None\<rparr>)
      else case avcodec_alloc_context3_result env of
             None \<Rightarrow> (False, context\<lparr>vaapi_context := None\<rparr>)
           | Some c \<Rightarrow>
               if avcodec_open2_result env < 0 then (False, context\<lparr>vaapi_context := None\<rparr>)
               else (True, context\<lparr>vaapi_context :=
                       Some (decoder\<lparr>codec_ctx := Some c, pix_fmt := AV_PIX_FMT_YUV420P\<rparr>)\<rparr>))"

definition vaapi_decoder_init :: "activate_env \<Rightarrow> hang_source \<Rightarrow> bool \<times> hang_source" where
  "vaapi_decoder_init env context =
     (case vaapi_init_display env zeroed_decoder of
        (False, decoder1) \<Rightarrow> software_fallback env decoder1 context
      | (True, decoder1) \<Rightarrow>
          (case vaapi_create_config env decoder1 of
             (False, decoder2) \<Rightarrow> software_fallback env (vaapi_cleanup decoder2) context
           | (True, decoder2) \<Rightarrow>
               (case vaapi_create_context env decoder2 of
                  (False, decoder3) \<Rightarrow> software_fallback env (vaapi_cleanup decoder3) context
                | (True, decoder3) \<Rightarrow> (True, context\<lparr>vaapi_context := Some decoder3\<rparr>))))"

definition vaapi_decoder_destroy :: "hang_source \<Rightarrow> hang_source" where
  "vaapi_decoder_destroy context =
     (case vaapi_context context of
        None \<Rightarrow> context
      | Some decoder \<Rightarrow> context\<lparr>vaapi_context := None\<rparr>)"

subsection \<open>Decoding one access unit\<close>

text \<open>
  C integer conversions. \<open>int\<close> is 32 bits; a product that leaves its range is taken
  modulo \<open>2^32\<close> into the signed range (what the compiled code does; the C standard leaves
  it undefined). \<open>size_t\<close> is 64 bits, \<open>uint32_t\<close> 32 bits, both unsigned.
\<close>

definition to_int32 :: "int \<Rightarrow> int" where
  "to_int32 x = (x + 2 ^ 31) mod 2 ^ 32 - 2 ^ 31"

definition to_size_t :: "int \<Rightarrow> nat" where
  "to_size_t x = nat (x mod 2 ^ 64)"

definition to_uint32 :: "int \<Rightarrow> nat" where
  "to_uint32 x = nat (x mod 2 ^ 32)"

text \<open>\<open>bzalloc\<close>: a block of the size asked for, or \<open>NULL\<close>.\<close>

definition bzalloc :: "(nat \<Rightarrow> bool) \<Rightarrow> nat \<Rightarrow> buffer option" where
  "bzalloc ok n = (if ok n then Some (Buffer n) else None)"

definition store_decoded_frame ::
  "hang_source \<Rightarrow> buffer option \<Rightarrow> nat \<Rightarrow> nat \<Rightarrow> nat \<Rightarrow> hang_source" where
  "store_decoded_frame context data sz w h =
     context\<lparr>current_frame_data := data, current_frame_size := sz,
             current_frame_width := w, current_frame_height := h\<rparr>"

text \<open>The placeholder hardware path: always \<open>false\<close>, nothing touched.\<close>

definition vaapi_decode_frame ::
  "vaapi_decoder \<Rightarrow> byte list \<Rightarrow> nat \<Rightarrow> hang_source \<Rightarrow> bool \<times> hang_source" where
  "vaapi_decode_frame decoder data pts context = (False, context)"

text \<open>\<open>frame->width * frame->height * 4\<close>, computed in \<open>int\<close>, converted to \<open>size_t\<close>.\<close>

definition rgba_size_of :: "int \<Rightarrow> int \<Rightarrow> nat" where
  "rgba_size_of w h = to_size_t (to_int32 (to_int32 (w * h) * 4))"

text \<open>
  \<open>software_decode_frame\<close>. The decoder is the one \<open>context->vaapi_context\<close> points to, so
  a change to it (the converter built on the way) is written back into the context.
\<close>

definition software_decode_frame ::
  "decode_env \<Rightarrow> vaapi_decoder \<Rightarrow> byte list \<Rightarrow> nat \<Rightarrow> hang_source \<Rightarrow> bool \<times> hang_source" where
  "software_decode_frame env decoder data pts context =
     (case convert_mp4_nal_units_to_annex_b (bzalloc_ok env) data of
        Inl e \<Rightarrow> (False, context)
      | Inr converted_data \<Rightarrow>
          if \<not> av_packet_alloc_ok env then (False, context)
          else if avcodec_send_packet_result env < 0 then (False, context)
          else if \<not> av_frame_alloc_ok env then (False, context)
          else if avcodec_receive_frame_result env < 0 then (False, context)
          else
            let decoder1 =
                  (if sws_ctx decoder = None
                   then decoder\<lparr>sws_ctx :=
                          (if sws_getContext_ok env
                           then Some \<lparr>srcW = frame_width env, srcH = frame_height env,
                                      srcFormat = frame_format env,
                                      dstW = frame_width env, dstH = frame_height env,
                                      dstFormat = AV_PIX_FMT_RGBA,
                                      sws_flags = [SWS_BILINEAR, SWS_FULL_CHR_H_INP,
                                                   SWS_FULL_CHR_H_INT]\<rparr>
                           else None)\<rparr>
                   else decoder);
                context1 = context\<lparr>vaapi_context := Some decoder1\<rparr>
            in if sws_ctx decoder1 = None then (False, context1)
               else
                 let rgba_size = rgba_size_of (frame_width env) (frame_height env);
                     rgba_data = bzalloc (bzalloc_ok env) rgba_size
                 in if rgba_data = None then (False, context1)
                    else if sws_scale_result env < 0 then (False, context1)
                    else (True, store_decoded_frame context1 rgba_data rgba_size
                                  (to_uint32 (frame_width env)) (to_uint32 (frame_height env))))"

definition vaapi_decoder_decode ::
  "decode_env \<Rightarrow> hang_source \<Rightarrow> byte list \<Rightarrow> nat \<Rightarrow> bool \<Rightarrow> bool \<times> hang_source" where
  "vaapi_decoder_decode env context data pts keyframe =
     (case vaapi_context context of
        None \<Rightarrow> (False, context)
      | Some decoder \<Rightarrow>
          if va_display decoder \<noteq> None then vaapi_decode_frame decoder data pts context
          else if codec_ctx decoder \<noteq> None then software_decode_frame env decoder data pts context
          else (False, context))"

subsection \<open>Audio decoder (audio-decoder.c)\<close>

text \<open>
  \<open>audio-decoder.c\<close> is not among the sources; its three functions are called from
  \<open>hang-source.c\<close>. The decoder's own state is not a field of the model; whether \<open>init\<close>
  succeeds and what \<open>decode\<close> produces are external results.
\<close>

record audio_env =
  audio_decode_result :: "obs_source_audio option"

text \<open>
  Modelled from the spec: \<open>audio_decoder_init\<close> (\<open>audio-decoder.c\<close> is missing), of which
  the specification says that it prepares a decoder for the audio codec.
\<close>

definition audio_decoder_init :: "activate_env \<Rightarrow> hang_source \<Rightarrow> bool \<times> hang_source" where
  "audio_decoder_init env context = (audio_decoder_init_result env, context)"

text \<open>
  Modelled from the spec: \<open>audio_decoder_destroy\<close> (\<open>audio-decoder.c\<close> is missing), of
  which the specification says that it releases the decoder's state.
\<close>

definition audio_decoder_destroy :: "hang_source \<Rightarrow> hang_source" where
  "audio_decoder_destroy context = context"

text \<open>
  Modelled from the spec: \<open>audio_decoder_decode\<close> (\<open>audio-decoder.c\<close> is missing), of
  which the specification says that it decodes one compressed unit and enqueues the PCM
  planes to the bounded audio queue: if the queue is full, the oldest entry is dropped
  before the new one is appended.
\<close>

definition audio_decoder_decode ::
  "audio_env \<Rightarrow> hang_source \<Rightarrow> byte list \<Rightarrow> nat \<Rightarrow> bool \<times> hang_source" where
  "audio_decoder_decode env context data pts =
     (case audio_decode_result env of
        None \<Rightarrow> (False, context)
      | Some audio \<Rightarrow>
          (True, context\<lparr>audio_queue :=
             (if length (audio_queue context) \<ge> audio_queue_cap context
              then tl (audio_queue context) else audio_queue context) @ [audio]\<rparr>))"

subsection \<open>Lifecycle (hang-source.c)\<close>

text \<open>
  Settings are a property bag; \<open>obs_data_get_string\<close> gives the empty string for a key
  that is not set. C strings are lists of characters, \<open>strcmp(a, b) != 0\<close> is \<open>a \<noteq> b\<close>,
  \<open>strlen\<close> is \<open>length\<close>, and \<open>strstr\<close> gives the rest of the string from the first
  occurrence of the needle on, or \<open>NULL\<close>.
\<close>

type_synonym obs_data = "string \<rightharpoonup> string"

definition obs_data_get_string :: "obs_data \<Rightarrow> string \<Rightarrow> string" where
  "obs_data_get_string settings name = (case settings name of None \<Rightarrow> [] | Some v \<Rightarrow> v)"

fun strstr :: "string \<Rightarrow> string \<Rightarrow> string option" where
  "strstr [] needle = (if needle = [] then Some [] else None)"
| "strstr (c # cs) needle =
     (if prefix needle (c # cs) then Some (c # cs) else strstr cs needle)"

text \<open>
  The two blocks \<open>if (id > 0) { close(id); id = 0; }\<close>, which \<open>deactivate\<close> and the
  \<open>cleanup\<close> label of \<open>activate\<close> both have.
\<close>

definition close_subscription :: "hang_source \<Rightarrow> hang_source \<times> event list" where
  "close_subscription context =
     (if subscription_id context > 0
      then (context\<lparr>subscription_id := 0\<rparr>, [Call_moq_subscribe_close (subscription_id context)])
      else (context, []))"

definition close_session :: "hang_source \<Rightarrow> hang_source \<times> event list" where
  "close_session context =
     (if session_id context > 0
      then (context\<lparr>session_id := 0\<rparr>, [Call_moq_session_close (session_id context)])
      else (context, []))"

definition hang_source_deactivate :: "hang_source \<Rightarrow> hang_source \<times> event list" where
  "hang_source_deactivate context =
     (if \<not> active context then (context, [])
      else
        let context1 = context\<lparr>active := False\<rparr>;
            (context2, closed_sub) = close_subscription context1;
            (context3, closed_ses) = close_session context2;
            context4 = audio_decoder_destroy (vaapi_decoder_destroy context3);
            context5 =
              (if current_frame_data context4 \<noteq> None
               then context4\<lparr>current_frame_data := None, current_frame_size := 0,
                              current_frame_width := 0, current_frame_height := 0\<rparr>
               else context4);
            context6 = context5\<lparr>frame_queue := []\<rparr>;
            context7 = context6\<lparr>audio_queue := []\<rparr>
        in (context7,
            [Log LOG_INFO ''Deactivating hang source''] @ closed_sub @ closed_ses
              @ [Log LOG_INFO ''Hang source deactivated'']))"

text \<open>The \<open>cleanup\<close> label of \<open>hang_source_activate\<close>.\<close>

definition activate_cleanup :: "hang_source \<Rightarrow> hang_source \<times> event list" where
  "activate_cleanup context =
     (let (context1, closed_sub) = close_subscription context;
          (context2, closed_ses) = close_session context1
      in (audio_decoder_destroy (vaapi_decoder_destroy context2), closed_sub @ closed_ses))"

definition hang_source_activate :: "activate_env \<Rightarrow> hang_source \<Rightarrow> hang_source \<times> event list" where
  "hang_source_activate env context =
     (case (url context, broadcast_path context) of
        (Some u, Some b) \<Rightarrow>
          if active context \<or> length u = 0 \<or> length b = 0 then (context, [])
          else
            (case strstr u ''://'' of
               None \<Rightarrow>
                 (context,
                  [Log LOG_ERROR ''Invalid URL format: %s (must include scheme like https://)''])
             | Some host_start \<Rightarrow>
                 if length (drop 3 host_start) = 0
                 then (context, [Log LOG_ERROR ''Invalid URL: %s (missing host)''])
                 else
                   let ev0 = [Log LOG_INFO ''Activating hang source with URL: %s, broadcast: %s'',
                              Call_moq_session_connect u];
                       context1 = context\<lparr>session_id := moq_session_connect_result env\<rparr>
                   in if session_id context1 \<le> 0
                      then (context1, ev0 @ [Log LOG_ERROR ''Failed to create MoQ session''])
                      else
                        (case vaapi_decoder_init env context1 of
                           (False, context2) \<Rightarrow>
                             (let (context3, ev) = activate_cleanup context2
                              in (context3,
                                  ev0 @ [Log LOG_ERROR ''Failed to initialize VA-API decoder''] @ ev))
                         | (True, context2) \<Rightarrow>
                             (case audio_decoder_init env context2 of
                                (False, context3) \<Rightarrow>
                                  (let (context4, ev) = activate_cleanup context3
                                   in (context4,
                                       ev0 @ [Log LOG_ERROR ''Failed to initialize audio decoder'']
                                         @ ev))
                              | (True, context3) \<Rightarrow>
                                  let context4 = context3\<lparr>subscription_id :=
                                                   moq_subscribe_create_result env\<rparr>;
                                      ev1 = ev0 @ [Call_moq_subscribe_create (session_id context3) b]
                                  in if subscription_id context4 \<le> 0
                                     then (let (context5, ev) = activate_cleanup context4
                                           in (context5,
                                               ev1 @ [Log LOG_ERROR ''Failed to create MoQ subscription'']
                                                 @ ev))
                                     else (context4\<lparr>active := True\<rparr>,
                                           ev1 @ [Log LOG_INFO ''Hang source activated successfully'']))))
      | _ \<Rightarrow> (context, []))"

definition hang_source_update ::
  "activate_env \<Rightarrow> hang_source \<Rightarrow> obs_data \<Rightarrow> hang_source \<times> event list" where
  "hang_source_update env context settings =
     (let new_url = obs_data_get_string settings ''url'';
          new_broadcast_path = obs_data_get_string settings ''broadcast'';
          url_changed = (case url context of None \<Rightarrow> True | Some u \<Rightarrow> u \<noteq> new_url);
          broadcast_changed =
            (case broadcast_path context of None \<Rightarrow> True | Some b \<Rightarrow> b \<noteq> new_broadcast_path)
      in if \<not> url_changed \<and> \<not> broadcast_changed then (context, [])
         else
           let (context1, ev1) = hang_source_deactivate context;
               context2 = context1\<lparr>url := Some new_url, broadcast_path := Some new_broadcast_path\<rparr>
           in if (url_changed \<or> broadcast_changed)
                 \<and> (case (url context2, broadcast_path context2) of
                        (Some u, Some b) \<Rightarrow> length u > 0 \<and> length b > 0
                      | _ \<Rightarrow> False)
              then (let (context3, ev2) = hang_source_activate env context2
                    in (context3, ev1 @ ev2))
              else (context2, ev1))"

text \<open>The context as \<open>bzalloc\<close> leaves it, before \<open>hang_source_create\<close> fills it in.\<close>

definition zeroed_context :: hang_source where
  "zeroed_context =
     \<lparr>url = None, broadcast_path = None, active = False, session_id = 0,
      subscription_id = 0, vaapi_context = None, current_frame_data = None,
      current_frame_size = 0, current_frame_width = 0, current_frame_height = 0,
      frame_queue_cap = 0, frame_queue = [], audio_queue_cap = 0, audio_queue = [],
      texture = None, width = 0, height = 0\<rparr>"

definition hang_source_create :: "activate_env \<Rightarrow> obs_data \<Rightarrow> hang_source \<times> event list" where
  "hang_source_create env settings =
     (let context = zeroed_context\<lparr>current_frame_data := None, current_frame_size := 0,
                                    current_frame_width := 0, current_frame_height := 0\<rparr>;
          context1 = context\<lparr>frame_queue_cap := 16, frame_queue := []\<rparr>;
          context2 = context1\<lparr>audio_queue_cap := 16, audio_queue := []\<rparr>
      in hang_source_update env context2 settings)"

text \<open>
  \<open>hang_source_video_render\<close>, as far as it changes the context: the texture and the
  dimensions it was made with. Uploading and drawing happen on the GPU.
\<close>

record render_env =
  gs_texture_create_result :: "nat option"

definition hang_source_video_render :: "render_env \<Rightarrow> hang_source \<Rightarrow> hang_source" where
  "hang_source_video_render env context =
     (if \<not> active context then context
      else if current_frame_data context \<noteq> None \<and> current_frame_width context > 0
              \<and> current_frame_height context > 0
      then
        (if texture context = None \<or> width context \<noteq> current_frame_width context
            \<or> height context \<noteq> current_frame_height context
         then context\<lparr>texture := gs_texture_create_result env,
                      width := current_frame_width context,
                      height := current_frame_height context\<rparr>
         else context)
      else context)"

definition hang_source_get_width :: "hang_source \<Rightarrow> nat" where
  "hang_source_get_width context =
     (if current_frame_width context > 0 then current_frame_width context else 1920)"

definition hang_source_get_height :: "hang_source \<Rightarrow> nat" where
  "hang_source_get_height context =
     (if current_frame_height context > 0 then current_frame_height context else 1080)"

subsection \<open>MoQ callbacks\<close>

definition on_video :: "decode_env \<Rightarrow> hang_source \<Rightarrow> byte list \<Rightarrow> nat \<Rightarrow> bool \<Rightarrow> hang_source" where
  "on_video env context data pts keyframe =
     (if \<not> active context then context
      else snd (vaapi_decoder_decode env context data pts keyframe))"

definition on_audio :: "audio_env \<Rightarrow> hang_source \<Rightarrow> byte list \<Rightarrow> nat \<Rightarrow> hang_source" where
  "on_audio env context data pts =
     (if \<not> active context then context
      else snd (audio_decoder_decode env context data pts))"

subsection \<open>Reachable contexts\<close>

text \<open>
  The contexts the host and the relay can bring about: \<open>create\<close>, then any sequence of
  \<open>update\<close>, \<open>activate\<close>, \<open>deactivate\<close>, \<open>video_render\<close> and the video and audio callbacks,
  whatever the external calls return. \<open>P\<close> is what is taken for granted about the codec
  each time a video unit is decoded.
\<close>

inductive reachable :: "(decode_env \<Rightarrow> bool) \<Rightarrow> hang_source \<Rightarrow> bool"
  for P :: "decode_env \<Rightarrow> bool" where
  created: "reachable P (fst (hang_source_create env settings))"
| updated: "reachable P context \<Longrightarrow> reachable P (fst (hang_source_update env context settings))"
| activated: "reachable P context \<Longrightarrow> reachable P (fst (hang_source_activate env context))"
| deactivated: "reachable P context \<Longrightarrow> reachable P (fst (hang_source_deactivate context))"
| rendered: "reachable P context \<Longrightarrow> reachable P (hang_source_video_render renv context)"
| video: "reachable P context \<Longrightarrow> P denv \<Longrightarrow>
          reachable P (on_video denv context data pts keyframe)"
| audio: "reachable P context \<Longrightarrow> reachable P (on_audio aenv context data pts)"

text \<open>Nothing taken for granted about the codec.\<close>

definition any_codec :: "decode_env \<Rightarrow> bool" where
  "any_codec env = True"

text \<open>
  What is taken for granted of a frame that libavcodec hands out: positive dimensions
  (it refuses a picture without), and fewer than \<open>2^29\<close> pixels, so that
  \<open>width * height * 4\<close> is an \<open>int\<close>. The code computes the size of the RGBA buffer in
  \<open>int\<close> and checks neither; every picture size of an H.264 level is far below the bound.
\<close>

definition codec_contract :: "decode_env \<Rightarrow> bool" where
  "codec_contract env =
     (avcodec_receive_frame_result env \<ge> 0 \<longrightarrow>
        0 < frame_width env \<and> 0 < frame_height env
        \<and> frame_width env * frame_height env * 4 < 2 ^ 31)"

text \<open>The latest-frame slot, and the invariant the specification gives for it.\<close>

definition slot :: "hang_source \<Rightarrow> buffer option \<times> nat \<times> nat \<times> nat" where
  "slot context = (current_frame_data context, current_frame_size context,
                   current_frame_width context, current_frame_height context)"

definition slot_invariant :: "hang_source \<Rightarrow> bool" where
  "slot_invariant context =
     (current_frame_data context \<noteq> None \<longrightarrow>
        current_frame_size context = current_frame_width context * current_frame_height context * 4
        \<and> 0 < current_frame_width context \<and> 0 < current_frame_height context)"

text \<open>
  What holds of every reachable context between two calls: an empty slot has zero size
  and dimensions; an active context holds a session and a subscription; an inactive one
  holds neither and has nothing staged.
\<close>

definition idle_invariant :: "hang_source \<Rightarrow> bool" where
  "idle_invariant c =
     ((current_frame_data c = None \<longrightarrow>
         current_frame_size c = 0 \<and> current_frame_width c = 0 \<and> current_frame_height c = 0)
      \<and> (if active c then 0 < session_id c \<and> 0 < subscription_id c
          else current_frame_data c = None \<and> frame_queue c = [] \<and> audio_queue c = []
               \<and> session_id c \<le> 0 \<and> subscription_id c \<le> 0))"

definition staging ::
  "hang_source \<Rightarrow> (buffer option \<times> nat \<times> nat \<times> nat) \<times> obs_source_frame list \<times> obs_source_audio list"
  where
  "staging c = (slot c, frame_queue c, audio_queue c)"

subsection \<open>A session to run the model on\<close>

text \<open>
  The settings of the specification's first scenario; a machine without a render node,
  where the relay accepts the session and the subscription and the software decoder opens;
  a codec that turns every unit into a frame of the given dimensions; and an access unit
  of one NAL unit of one byte.
\<close>

definition example_settings :: obs_data where
  "example_settings =
     [''url'' \<mapsto> ''https://relay.example/moq'', ''broadcast'' \<mapsto> ''demo/track'']"

definition no_vaapi_profile :: "VAProfile \<Rightarrow> nat option" where
  "no_vaapi_profile p = None"

definition software_only_env :: activate_env where
  "software_only_env =
     \<lparr>moq_session_connect_result = 7, moq_subscribe_create_result = 3,
      audio_decoder_init_result = True, drm_open_ok = False,
      vaGetDisplayDRM_result = None, vaInitialize_ok = False,
      vaCreateConfig_result = no_vaapi_profile, vaCreateContext_result = None,
      avcodec_find_decoder_ok = True, avcodec_alloc_context3_result = Some 1,
      avcodec_open2_result = 0\<rparr>"

definition decoded_frame_env :: "int \<Rightarrow> int \<Rightarrow> decode_env" where
  "decoded_frame_env w h =
     \<lparr>bzalloc_ok = always_alloc, av_packet_alloc_ok = True, avcodec_send_packet_result = 0,
      av_frame_alloc_ok = True, avcodec_receive_frame_result = 0,
      frame_width = w, frame_height = h, frame_format = AV_PIX_FMT_YUV420P,
      sws_getContext_ok = True, sws_scale_result = h\<rparr>"

definition access_unit :: "byte list" where
  "access_unit = [0, 0, 0, 1, 0x65]"

definition example_session :: hang_source where
  "example_session = fst (hang_source_create software_only_env example_settings)"

text \<open>Settings with a URL that has no scheme; with and without a broadcast path.\<close>

definition no_scheme_settings :: obs_data where
  "no_scheme_settings = [''url'' \<mapsto> ''no-scheme'', ''broadcast'' \<mapsto> ''demo/track'']"

definition no_scheme_no_broadcast_settings :: obs_data where
  "no_scheme_no_broadcast_settings = [''url'' \<mapsto> ''no-scheme'']"

text \<open>
  The converter \<open>sws_getContext\<close> is asked for when the frame is \<open>w \<times> h\<close> in YUV 4:2:0.
\<close>

definition converter_for :: "int \<Rightarrow> int \<Rightarrow> SwsContext" where
  "converter_for w h =
     \<lparr>srcW = w, srcH = h, srcFormat = AV_PIX_FMT_YUV420P, dstW = w, dstH = h,
      dstFormat = AV_PIX_FMT_RGBA,
      sws_flags = [SWS_BILINEAR, SWS_FULL_CHR_H_INP, SWS_FULL_CHR_H_INT]\<rparr>"

text \<open>
  Contexts of the example: created with a URL without scheme and no broadcast path;
  created with that URL and a broadcast path; created with no settings at all; the
  example session after a 640 \<times> 360 frame; and after a 1280 \<times> 720 frame on top.
\<close>

definition unconfigured_session :: hang_source where
  "unconfigured_session =
     fst (hang_source_create software_only_env no_scheme_no_broadcast_settings)"

definition no_scheme_session :: hang_source where
  "no_scheme_session = fst (hang_source_create software_only_env no_scheme_settings)"

definition blank_session :: hang_source where
  "blank_session = fst (hang_source_create software_only_env Map.empty)"

definition staged_session :: hang_source where
  "staged_session = on_video (decoded_frame_env 640 360) example_session access_unit 0 True"

definition resized_session :: hang_source where
  "resized_session = on_video (decoded_frame_env 1280 720) staged_session access_unit 1 True"

text \<open>
  The example session after a frame whose codec-reported dimensions the code does not
  expect: one of 32768 \<times> 32769 pixels, and one of width 0.
\<close>

definition oversized_session :: hang_source where
  "oversized_session =
     on_video (decoded_frame_env 32768 32769) example_session access_unit 0 True"

definition flat_session :: hang_source where
  "flat_session = on_video (decoded_frame_env 0 360) example_session access_unit 0 True"

section \<open>Properties of the bitstream repacker\<close>

subsection \<open>Big-endian reading and writing\<close>

lemma word32_from_bytes:
  "(push_bit 24 (ucast (ucast (drop_bit 24 w) :: byte))
      OR push_bit 16 (ucast (ucast (drop_bit 16 w) :: byte))
      OR push_bit 8 (ucast (ucast (drop_bit 8 w) :: byte))
      OR ucast (ucast w :: byte)) = (w :: 32 word)"
proof (rule bit_word_eqI)
  fix n :: nat
  assume "n < LENGTH(32)"
  then have n: "n < 32" by simp
  consider "n < 8" | "8 \<le> n" "n < 16" | "16 \<le> n" "n < 24" | "24 \<le> n" "n < 32"
    using n by linarith
  then show "bit (push_bit 24 (ucast (ucast (drop_bit 24 w) :: byte))
      OR push_bit 16 (ucast (ucast (drop_bit 16 w) :: byte))
      OR push_bit 8 (ucast (ucast (drop_bit 8 w) :: byte))
      OR (ucast (ucast w :: byte) :: 32 word)) n = bit w n"
    by cases (auto simp add: bit_simps)
qed

lemma of_nat_div_byte:
  "(of_nat (n div 2 ^ k) :: byte) = ucast (drop_bit k (of_nat n :: 32 word))" if "k \<le> 24"
proof (rule bit_word_eqI)
  fix i :: nat
  assume "i < LENGTH(8)"
  then have "i < 8" by simp
  with that show "bit (of_nat (n div 2 ^ k) :: byte) i
      = bit (ucast (drop_bit k (of_nat n :: 32 word)) :: byte) i"
    by (auto simp add: bit_simps simp flip: drop_bit_eq_div)
qed

lemma be32_word:
  "be32 n = (let w = (of_nat n :: 32 word)
             in [ucast (drop_bit 24 w), ucast (drop_bit 16 w), ucast (drop_bit 8 w), ucast w])"
  using of_nat_div_byte [of 24 n] of_nat_div_byte [of 16 n]
    of_nat_div_byte [of 8 n] of_nat_div_byte [of 0 n]
  unfolding be32_def Let_def by simp

lemma length_be32 [simp]: "length (be32 n) = 4"
  by (simp add: be32_def)

lemma bytes_of_word32:
  fixes a b c d :: byte
  defines "w \<equiv> (push_bit 24 (ucast a) OR push_bit 16 (ucast b)
                  OR push_bit 8 (ucast c) OR ucast d :: 32 word)"
  shows "ucast (drop_bit 24 w) = a" "ucast (drop_bit 16 w) = b"
    "ucast (drop_bit 8 w) = c" "ucast w = d"
  unfolding w_def
  by (rule bit_word_eqI, auto simp add: bit_simps dest: bit_imp_le_length)+

lemma read_be32_at:
  "read_be32 (pre @ a # b # c # d # xs) (length pre) = read_be32 [a, b, c, d] 0"
  by (simp add: read_be32_def nth_append)

lemma read_be32_be32: "read_be32 (pre @ be32 n @ xs) (length pre) = of_nat n"
proof -
  have "read_be32 (pre @ be32 n @ xs) (length pre)
      = read_be32 [of_nat (n div 2 ^ 24), of_nat (n div 2 ^ 16), of_nat (n div 2 ^ 8), of_nat n] 0"
    using read_be32_at [of pre _ _ _ _ xs] by (simp add: be32_def)
  also have "\<dots> = read_be32 (be32 n) 0"
    by (simp add: be32_def)
  also have "\<dots> = of_nat n"
    unfolding be32_word Let_def read_be32_def by (simp add: word32_from_bytes)
  finally show ?thesis .
qed

lemma unat_read_be32_be32:
  "n < 2 ^ 32 \<Longrightarrow> unat (read_be32 (pre @ be32 n @ xs) (length pre)) = n"
  by (simp add: read_be32_be32 unat_of_nat)

lemma be32_read_be32: "be32 (unat (read_be32 [a, b, c, d] 0)) = [a, b, c, d]"
  unfolding be32_word Let_def read_be32_def
  using bytes_of_word32 [of a b c d] by simp

lemma unat_read_be32_less: "unat (read_be32 data pos) < 2 ^ 32"
  using unsigned_less [of "read_be32 data pos", where ?'a = nat] by simp

subsection \<open>The loop\<close>

lemma convert_loop_exit:
  "\<not> pos + 4 \<le> length data \<Longrightarrow> convert_loop can_alloc data pos buffer estimated_size = Inr buffer"
  by (subst convert_loop.simps) simp

lemma convert_loop_malformed:
  "pos + 4 \<le> length data \<Longrightarrow> pos + 4 + unat (read_be32 data pos) > length data
   \<Longrightarrow> convert_loop can_alloc data pos buffer estimated_size = Inl MalformedBitstream"
  by (subst convert_loop.simps) (simp add: Let_def)

lemma convert_loop_step:
  "pos + 4 \<le> length data \<Longrightarrow> pos + 4 + unat (read_be32 data pos) \<le> length data
   \<Longrightarrow> length buffer + 4 + unat (read_be32 data pos) \<le> estimated_size
   \<Longrightarrow> convert_loop can_alloc data pos buffer estimated_size
     = convert_loop can_alloc data (pos + 4 + unat (read_be32 data pos))
         (buffer @ start_code @ take (unat (read_be32 data pos)) (drop (pos + 4) data))
         estimated_size"
  by (subst convert_loop.simps) (simp add: Let_def)

lemma length_start_code [simp]: "length start_code = 4"
  by (simp add: start_code_def)

lemma length_prefixed_Nil [simp]: "length_prefixed [] = []"
  by (simp add: length_prefixed_def)

lemma length_prefixed_Cons [simp]:
  "length_prefixed (p # nals) = be32 (length p) @ p @ length_prefixed nals"
  by (simp add: length_prefixed_def)

lemma start_coded_Nil [simp]: "start_coded [] = []"
  by (simp add: start_coded_def)

lemma start_coded_Cons [simp]: "start_coded (p # nals) = start_code @ p @ start_coded nals"
  by (simp add: start_coded_def)

lemma length_start_coded: "length (start_coded nals) = length (length_prefixed nals)"
  by (induction nals) simp_all

text \<open>Walking over well-formed NAL units, with any bytes \<open>sfx\<close> after them.\<close>

lemma convert_loop_nals:
  "nal_sizes_ok nals \<Longrightarrow>
   length buffer + length (length_prefixed nals) \<le> estimated_size \<Longrightarrow>
   convert_loop can_alloc (pre @ length_prefixed nals @ sfx) (length pre) buffer estimated_size
     = convert_loop can_alloc (pre @ length_prefixed nals @ sfx)
         (length pre + length (length_prefixed nals)) (buffer @ start_coded nals) estimated_size"
proof (induction nals arbitrary: pre buffer)
  case Nil
  then show ?case by simp
next
  case (Cons p nals)
  let ?data = "pre @ length_prefixed (p # nals) @ sfx"
  let ?pre' = "pre @ be32 (length p) @ p"
  have len: "length p < 2 ^ 32" and rest_ok: "nal_sizes_ok nals"
    using Cons.prems(1) by (simp_all add: nal_sizes_ok_def)
  have data1: "?data = pre @ be32 (length p) @ (p @ length_prefixed nals @ sfx)"
    by simp
  have L: "unat (read_be32 ?data (length pre)) = length p"
    unfolding data1 using len by (rule unat_read_be32_be32)
  have data2: "?data = ?pre' @ length_prefixed nals @ sfx"
    by simp
  have payload: "take (length p) (drop (length pre + 4) ?data) = p"
    by simp
  have step: "convert_loop can_alloc ?data (length pre) buffer estimated_size
      = convert_loop can_alloc ?data (length pre + 4 + length p)
          (buffer @ start_code @ p) estimated_size"
    using convert_loop_step [of "length pre" ?data buffer estimated_size can_alloc]
      Cons.prems(2) L payload by simp
  have "convert_loop can_alloc (?pre' @ length_prefixed nals @ sfx) (length ?pre')
          (buffer @ start_code @ p) estimated_size
      = convert_loop can_alloc (?pre' @ length_prefixed nals @ sfx)
          (length ?pre' + length (length_prefixed nals))
          ((buffer @ start_code @ p) @ start_coded nals) estimated_size"
    using Cons.prems(2) by (intro Cons.IH [OF rest_ok]) simp
  then show ?case
    using step by (simp add: add.assoc)
qed

lemma drop_four:
  "pos + 4 \<le> length data \<Longrightarrow>
   drop pos data = data ! pos # data ! (pos + 1) # data ! (pos + 2) # data ! (pos + 3)
     # drop (pos + 4) data"
proof -
  assume a: "pos + 4 \<le> length data"
  have "drop pos data = data ! pos # drop (Suc pos) data"
    using a by (simp add: Cons_nth_drop_Suc)
  also have "drop (Suc pos) data = data ! (pos + 1) # drop (Suc (Suc pos)) data"
    using a by (simp add: Cons_nth_drop_Suc)
  also have "drop (Suc (Suc pos)) data = data ! (pos + 2) # drop (Suc (Suc (Suc pos))) data"
    using a Cons_nth_drop_Suc [of "pos + 2" data] by simp
  also have "drop (Suc (Suc (Suc pos))) data = data ! (pos + 3) # drop (pos + 4) data"
    using a Cons_nth_drop_Suc [of "pos + 3" data] by (simp add: eval_nat_numeral)
  finally show ?thesis .
qed

lemma be32_of_read:
  "pos + 4 \<le> length data \<Longrightarrow>
   drop pos data = be32 (unat (read_be32 data pos)) @ drop (pos + 4) data"
proof -
  assume a: "pos + 4 \<le> length data"
  have "read_be32 data pos
      = read_be32 [data ! pos, data ! (pos + 1), data ! (pos + 2), data ! (pos + 3)] 0"
    by (simp add: read_be32_def)
  then show ?thesis
    using drop_four [OF a] by (simp add: be32_read_be32)
qed

lemma convert_loop_sound:
  "convert_loop can_alloc data pos buffer estimated_size = Inr out \<Longrightarrow>
   \<exists>nals rest. drop pos data = length_prefixed nals @ rest \<and> length rest < 4
      \<and> nal_sizes_ok nals \<and> out = buffer @ start_coded nals"
proof (induction can_alloc data pos buffer estimated_size rule: convert_loop.induct)
  case (1 can_alloc data pos buffer estimated_size)
  show ?case
  proof (cases "pos + 4 \<le> length data")
    case False
    then have "out = buffer"
      using "1.prems" by (simp add: convert_loop_exit)
    moreover have "length (drop pos data) < 4"
      using False by simp
    ultimately have "drop pos data = length_prefixed [] @ drop pos data
        \<and> length (drop pos data) < 4 \<and> nal_sizes_ok [] \<and> out = buffer @ start_coded []"
      by (simp add: nal_sizes_ok_def)
    then show ?thesis by blast
  next
    case True
    define L where "L = unat (read_be32 data pos)"
    define needed where "needed = length buffer + 4 + L"
    have fits: "pos + 4 + L \<le> length data"
      using "1.prems" True
      by (subst (asm) convert_loop.simps) (simp add: Let_def L_def split: if_splits)
    have alloc: "\<not> (needed > estimated_size \<and> \<not> can_alloc (needed + 1024))"
      using "1.prems" True fits
      by (subst (asm) convert_loop.simps) (simp add: Let_def L_def needed_def split: if_splits)
    have rec: "convert_loop can_alloc data (pos + 4 + L)
          (buffer @ start_code @ take L (drop (pos + 4) data))
          (if needed > estimated_size then needed + 1024 else estimated_size) = Inr out"
      using "1.prems" True fits alloc
      by (subst (asm) convert_loop.simps) (simp add: Let_def L_def needed_def split: if_splits)
    have "\<exists>nals rest. drop (pos + 4 + L) data = length_prefixed nals @ rest \<and> length rest < 4
        \<and> nal_sizes_ok nals
        \<and> out = (buffer @ start_code @ take L (drop (pos + 4) data)) @ start_coded nals"
      using "1.IH" [OF True L_def refl needed_def _ alloc rec] fits by simp
    then obtain nals rest where
      tl: "drop (pos + 4 + L) data = length_prefixed nals @ rest" and
      rest: "length rest < 4" and ok: "nal_sizes_ok nals" and
      out: "out = (buffer @ start_code @ take L (drop (pos + 4) data)) @ start_coded nals"
      by blast
    let ?p = "take L (drop (pos + 4) data)"
    have lenp: "length ?p = L"
      using fits by simp
    have "drop (pos + 4) data = ?p @ drop L (drop (pos + 4) data)"
      by (simp only: append_take_drop_id)
    also have "drop L (drop (pos + 4) data) = drop (pos + 4 + L) data"
      by (simp add: add.commute)
    finally have "drop (pos + 4) data = ?p @ length_prefixed nals @ rest"
      using tl by simp
    then have "drop pos data = length_prefixed (?p # nals) @ rest"
      using be32_of_read [OF True] lenp by (simp add: L_def)
    moreover have "nal_sizes_ok (?p # nals)"
      using ok lenp unat_read_be32_less [of data pos] by (simp add: nal_sizes_ok_def L_def)
    moreover have "out = buffer @ start_coded (?p # nals)"
      using out by simp
    ultimately show ?thesis
      using rest by blast
  qed
qed

lemma convert_accepts:
  assumes "nal_sizes_ok nals" "length rest < 4" "can_alloc (length (length_prefixed nals @ rest) + 1024)"
  shows "convert_mp4_nal_units_to_annex_b can_alloc (length_prefixed nals @ rest)
     = Inr (start_coded nals)"
proof -
  let ?data = "length_prefixed nals @ rest"
  have "convert_loop can_alloc ([] @ ?data) (length ([] :: byte list)) [] (length ?data + 1024)
      = convert_loop can_alloc ([] @ ?data) (length ([] :: byte list) + length (length_prefixed nals))
          ([] @ start_coded nals) (length ?data + 1024)"
    by (rule convert_loop_nals) (use assms in simp_all)
  also have "\<dots> = Inr (start_coded nals)"
    using assms(2) by (simp add: convert_loop_exit)
  finally show ?thesis
    using assms(3) by (simp add: convert_mp4_nal_units_to_annex_b_def)
qed

lemma convert_rejects:
  assumes "nal_sizes_ok nals" "L < 2 ^ 32" "length tail < L"
    "can_alloc (length (length_prefixed nals @ be32 L @ tail) + 1024)"
  shows "convert_mp4_nal_units_to_annex_b can_alloc (length_prefixed nals @ be32 L @ tail)
     = Inl MalformedBitstream"
proof -
  let ?data = "length_prefixed nals @ be32 L @ tail"
  have "convert_loop can_alloc ([] @ ?data) (length ([] :: byte list)) [] (length ?data + 1024)
      = convert_loop can_alloc ([] @ ?data) (length ([] :: byte list) + length (length_prefixed nals))
          ([] @ start_coded nals) (length ?data + 1024)"
    by (rule convert_loop_nals) (use assms in simp_all)
  moreover have "unat (read_be32 ?data (length (length_prefixed nals))) = L"
    using unat_read_be32_be32 [OF assms(2), of "length_prefixed nals" tail] by simp
  then have "convert_loop can_alloc ?data (length (length_prefixed nals))
      (start_coded nals) (length ?data + 1024) = Inl MalformedBitstream"
    using assms(3) by (intro convert_loop_malformed) simp_all
  ultimately show ?thesis
    using assms(4) by (simp add: convert_mp4_nal_units_to_annex_b_def)
qed

text \<open>An input splits into NAL units and left-over bytes in one way only.\<close>

lemma be32_inj:
  assumes "n < 2 ^ 32" "m < 2 ^ 32" "be32 n = be32 m"
  shows "n = m"
proof -
  have "unat (read_be32 ([] @ be32 n @ []) (length ([] :: byte list))) = n"
    using assms(1) by (rule unat_read_be32_be32)
  moreover have "unat (read_be32 ([] @ be32 m @ []) (length ([] :: byte list))) = m"
    using assms(2) by (rule unat_read_be32_be32)
  ultimately show ?thesis
    using assms(3) by simp
qed

lemma length_prefixed_unique:
  "nal_sizes_ok nals \<Longrightarrow> nal_sizes_ok nals' \<Longrightarrow> length rest < 4 \<Longrightarrow> length rest' < 4 \<Longrightarrow>
   length_prefixed nals @ rest = length_prefixed nals' @ rest' \<Longrightarrow>
   nals = nals' \<and> rest = rest'"
proof (induction nals arbitrary: nals')
  case Nil
  show ?case
  proof (cases nals')
    case Nil
    with Nil.prems show ?thesis by simp
  next
    case (Cons q qs)
    with Nil.prems(5) have "length rest = length (be32 (length q) @ q @ length_prefixed qs @ rest')"
      by simp
    with Nil.prems(3) show ?thesis by simp
  qed
next
  case (Cons p ps)
  show ?case
  proof (cases nals')
    case Nil
    with Cons.prems(5) have "length rest' = length (be32 (length p) @ p @ length_prefixed ps @ rest)"
      by simp
    with Cons.prems(4) show ?thesis by simp
  next
    case (Cons q qs)
    with Cons.prems(5) have eq:
      "be32 (length p) @ (p @ length_prefixed ps @ rest)
        = be32 (length q) @ (q @ length_prefixed qs @ rest')"
      by simp
    then have "be32 (length p) = be32 (length q)"
      and tl: "p @ length_prefixed ps @ rest = q @ length_prefixed qs @ rest'"
      by simp_all
    moreover have "length p < 2 ^ 32" "length q < 2 ^ 32"
      using Cons.prems(1,2) Cons by (simp_all add: nal_sizes_ok_def)
    ultimately have "length p = length q"
      by (intro be32_inj)
    with tl have "p = q" "length_prefixed ps @ rest = length_prefixed qs @ rest'"
      by simp_all
    moreover have "nal_sizes_ok ps" "nal_sizes_ok qs"
      using Cons.prems(1,2) Cons by (simp_all add: nal_sizes_ok_def)
    ultimately show ?thesis
      using Cons.IH [of qs] Cons.prems(3,4) Cons by simp
  qed
qed

subsection \<open>Claims about the repacker\<close>

text \<open>
  C1. The repacker returns an output exactly for the inputs that are a sequence of
  length-prefixed NAL units followed by fewer than four further bytes (and whose output
  buffer could be allocated), and the output is then the same NAL units in start-code
  framing: each 4-byte big-endian length prefix is replaced by \<open>00 00 00 01\<close>, followed
  by a copy of the payload, in order. So the repacker writes as many start codes as it
  has read length prefixes (a payload may hold the bytes \<open>00 00 00 01\<close> itself; they are
  copied like any others), the payloads \<open>nals\<close> are the same on both sides, a NAL unit of
  length zero gives a bare start code, and the empty input gives the empty output. The
  units are those of the input and no others (\<open>length_prefixed_unique\<close>).
\<close>

theorem repacker_start_code_reframing:
  "convert_mp4_nal_units_to_annex_b can_alloc data = Inr out \<longleftrightarrow>
     can_alloc (length data + 1024)
     \<and> (\<exists>nals rest. data = length_prefixed nals @ rest \<and> length rest < 4
           \<and> nal_sizes_ok nals \<and> out = start_coded nals)"
proof
  assume accepted: "convert_mp4_nal_units_to_annex_b can_alloc data = Inr out"
  then have alloc: "can_alloc (length data + 1024)"
    by (simp add: convert_mp4_nal_units_to_annex_b_def Let_def split: if_splits)
  with accepted have "convert_loop can_alloc data 0 [] (length data + 1024) = Inr out"
    by (simp add: convert_mp4_nal_units_to_annex_b_def Let_def)
  from convert_loop_sound [OF this] alloc
  show "can_alloc (length data + 1024)
     \<and> (\<exists>nals rest. data = length_prefixed nals @ rest \<and> length rest < 4
           \<and> nal_sizes_ok nals \<and> out = start_coded nals)"
    by simp
next
  assume "can_alloc (length data + 1024)
     \<and> (\<exists>nals rest. data = length_prefixed nals @ rest \<and> length rest < 4
           \<and> nal_sizes_ok nals \<and> out = start_coded nals)"
  then obtain nals rest where
    "can_alloc (length data + 1024)" "data = length_prefixed nals @ rest"
    "length rest < 4" "nal_sizes_ok nals" "out = start_coded nals"
    by blast
  then show "convert_mp4_nal_units_to_annex_b can_alloc data = Inr out"
    using convert_accepts [of nals rest can_alloc] by simp
qed

theorem repacker_start_code_reframing_witness:
  "convert_mp4_nal_units_to_annex_b always_alloc [] = Inr []
   \<and> convert_mp4_nal_units_to_annex_b always_alloc [0, 0, 0, 0] = Inr [0, 0, 0, 1]
   \<and> convert_mp4_nal_units_to_annex_b always_alloc [0, 0, 0, 2, 0xAA, 0xBB, 0, 0, 0, 0]
       = Inr [0, 0, 0, 1, 0xAA, 0xBB, 0, 0, 0, 1]"
proof (intro conjI)
  have "\<exists>nals rest. ([] :: byte list) = length_prefixed nals @ rest \<and> length rest < 4
      \<and> nal_sizes_ok nals \<and> ([] :: byte list) = start_coded nals"
    by (rule exI [of _ "[]"], rule exI [of _ "[]"]) (simp add: nal_sizes_ok_def)
  then show "convert_mp4_nal_units_to_annex_b always_alloc [] = Inr []"
    using repacker_start_code_reframing [of always_alloc "[]" "[]"]
    by (simp add: always_alloc_def)
next
  have "\<exists>nals rest. [0, 0, 0, 0 :: byte] = length_prefixed nals @ rest \<and> length rest < 4
      \<and> nal_sizes_ok nals \<and> [0, 0, 0, 1 :: byte] = start_coded nals"
    by (rule exI [of _ "[[]]"], rule exI [of _ "[]"])
      (simp add: nal_sizes_ok_def be32_def start_code_def)
  then show "convert_mp4_nal_units_to_annex_b always_alloc [0, 0, 0, 0] = Inr [0, 0, 0, 1]"
    using repacker_start_code_reframing [of always_alloc "[0, 0, 0, 0]" "[0, 0, 0, 1]"]
    by (simp add: always_alloc_def)
next
  have "\<exists>nals rest. [0, 0, 0, 2, 0xAA, 0xBB, 0, 0, 0, 0 :: byte] = length_prefixed nals @ rest
      \<and> length rest < 4 \<and> nal_sizes_ok nals
      \<and> [0, 0, 0, 1, 0xAA, 0xBB, 0, 0, 0, 1 :: byte] = start_coded nals"
    by (rule exI [of _ "[[0xAA, 0xBB], []]"], rule exI [of _ "[]"])
      (simp add: nal_sizes_ok_def be32_def start_code_def)
  then show "convert_mp4_nal_units_to_annex_b always_alloc [0, 0, 0, 2, 0xAA, 0xBB, 0, 0, 0, 0]
       = Inr [0, 0, 0, 1, 0xAA, 0xBB, 0, 0, 0, 1]"
    using repacker_start_code_reframing
      [of always_alloc "[0, 0, 0, 2, 0xAA, 0xBB, 0, 0, 0, 0]" "[0, 0, 0, 1, 0xAA, 0xBB, 0, 0, 0, 1]"]
    by (simp add: always_alloc_def)
qed

text \<open>
  C2. When the walk reaches a length prefix that declares \<open>L\<close> bytes and fewer than \<open>L\<close>
  bytes follow it, the repacker fails and hands out no buffer. The failure is
  \<open>MalformedBitstream\<close>; only if the output buffer could not be allocated in the first
  place has the function failed before, with \<open>AllocationFailed\<close>.
\<close>

theorem repacker_rejects_overlong_length:
  "nal_sizes_ok nals \<Longrightarrow> L < 2 ^ 32 \<Longrightarrow> length tail < L \<Longrightarrow>
   convert_mp4_nal_units_to_annex_b can_alloc (length_prefixed nals @ be32 L @ tail)
     = Inl (if can_alloc (length (length_prefixed nals @ be32 L @ tail) + 1024)
            then MalformedBitstream else AllocationFailed)"
proof (cases "can_alloc (length (length_prefixed nals @ be32 L @ tail) + 1024)")
  case True
  assume "nal_sizes_ok nals" "L < 2 ^ 32" "length tail < L"
  then show ?thesis
    using True convert_rejects [of nals L tail can_alloc] by simp
next
  case False
  then show ?thesis
    by (simp add: convert_mp4_nal_units_to_annex_b_def)
qed

theorem repacker_rejects_overlong_length_witness:
  "convert_mp4_nal_units_to_annex_b always_alloc [0, 0, 0, 0x10, 0xAA, 0xBB]
     = Inl MalformedBitstream"
proof -
  have "nal_sizes_ok []" "(16 :: nat) < 2 ^ 32" "length [0xAA, 0xBB :: byte] < 16"
    by (simp_all add: nal_sizes_ok_def)
  from repacker_rejects_overlong_length [OF this, of always_alloc]
  show ?thesis
    by (simp add: be32_def always_alloc_def)
qed

text \<open>
  C6, as the code has it. One to three bytes left over after the last NAL unit are not
  an error: the loop stops at \<open>pos + 4 > size\<close> and the function succeeds. The output is
  the start-code framing of the NAL units before the left-over bytes, which are dropped.
\<close>

theorem repacker_ignores_trailing_bytes:
  "nal_sizes_ok nals \<Longrightarrow> 1 \<le> length rest \<Longrightarrow> length rest \<le> 3 \<Longrightarrow>
   can_alloc (length (length_prefixed nals @ rest) + 1024) \<Longrightarrow>
   convert_mp4_nal_units_to_annex_b can_alloc (length_prefixed nals @ rest)
     = Inr (start_coded nals)"
  using convert_accepts [of nals rest can_alloc] by simp

theorem repacker_ignores_trailing_bytes_witness:
  "convert_mp4_nal_units_to_annex_b always_alloc [0, 0, 0, 0, 0, 0, 0, 2, 0x41, 0x9A, 0xFF]
     = Inr [0, 0, 0, 1, 0, 0, 0, 1, 0x41, 0x9A]"
proof -
  have "nal_sizes_ok [[], [0x41, 0x9A]]" "1 \<le> length [0xFF :: byte]" "length [0xFF :: byte] \<le> 3"
    "always_alloc (length (length_prefixed [[], [0x41, 0x9A]] @ [0xFF]) + 1024)"
    by (simp_all add: nal_sizes_ok_def always_alloc_def)
  from repacker_ignores_trailing_bytes [of "[[], [0x41, 0x9A]]" "[0xFF]" always_alloc, OF this]
  show ?thesis
    by (simp add: be32_def start_code_def)
qed

text \<open>The code run on the unit \<open>65\<close> followed by two stray bytes.\<close>

theorem repacker_trailing_bytes_example:
  "convert_mp4_nal_units_to_annex_b always_alloc [0, 0, 0, 1, 0x65, 0xAA, 0xBB]
     = Inr [0, 0, 0, 1, 0x65]"
  by (simp add: convert_mp4_nal_units_to_annex_b_def always_alloc_def convert_loop.simps
      read_be32_def start_code_def)

section \<open>Properties of the video decoder\<close>

subsection \<open>What a decode call does to the slot\<close>

lemma software_decode_frame_slot:
  "software_decode_frame env decoder data pts c = (r, c') \<Longrightarrow>
   (r \<longrightarrow> slot c' = (Some (Buffer (rgba_size_of (frame_width env) (frame_height env))),
                    rgba_size_of (frame_width env) (frame_height env),
                    to_uint32 (frame_width env), to_uint32 (frame_height env)))
   \<and> (\<not> r \<longrightarrow> slot c' = slot c)"
  by (auto simp add: software_decode_frame_def Let_def slot_def store_decoded_frame_def
      bzalloc_def split: sum.splits if_splits)

lemma software_decode_frame_true:
  "software_decode_frame env decoder data pts c = (True, c') \<Longrightarrow>
   \<not> isl (convert_mp4_nal_units_to_annex_b (bzalloc_ok env) data)
   \<and> 0 \<le> avcodec_receive_frame_result env"
  by (auto simp add: software_decode_frame_def Let_def split: sum.splits if_splits)

lemma decode_slot:
  "vaapi_decoder_decode env c data pts keyframe = (r, c') \<Longrightarrow>
   (r \<longrightarrow> slot c' = (Some (Buffer (rgba_size_of (frame_width env) (frame_height env))),
                    rgba_size_of (frame_width env) (frame_height env),
                    to_uint32 (frame_width env), to_uint32 (frame_height env))
          \<and> 0 \<le> avcodec_receive_frame_result env
          \<and> \<not> isl (convert_mp4_nal_units_to_annex_b (bzalloc_ok env) data))
   \<and> (\<not> r \<longrightarrow> slot c' = slot c)"
  using software_decode_frame_slot [of env _ data pts c r c']
    software_decode_frame_true [of env _ data pts c c']
  by (cases r)
    (auto simp add: vaapi_decoder_decode_def vaapi_decode_frame_def
      split: option.splits if_splits)

lemma decode_keeps_lifecycle:
  "vaapi_decoder_decode env c data pts keyframe = (r, c') \<Longrightarrow>
   active c' = active c \<and> session_id c' = session_id c \<and> subscription_id c' = subscription_id c
   \<and> frame_queue c' = frame_queue c \<and> audio_queue c' = audio_queue c
   \<and> (current_frame_data c' = None \<longrightarrow> slot c' = slot c)"
  by (auto simp add: vaapi_decoder_decode_def vaapi_decode_frame_def software_decode_frame_def
      Let_def store_decoded_frame_def bzalloc_def slot_def
      split: option.splits if_splits sum.splits)

subsection \<open>The size of the RGBA buffer\<close>

lemma to_int32_id: "- (2 ^ 31) \<le> x \<Longrightarrow> x < 2 ^ 31 \<Longrightarrow> to_int32 x = x"
  unfolding to_int32_def
  by (simp add: mod_pos_pos_trivial)

lemma rgba_size_exact:
  assumes "0 < w" "0 < h" "w * h * 4 < 2 ^ 31"
  shows "rgba_size_of w h = to_uint32 w * to_uint32 h * 4"
    and "0 < to_uint32 w" and "0 < to_uint32 h"
proof -
  define P where "P = w * h"
  have P4: "P * 4 < 2147483648"
    using assms(3) by (simp add: P_def)
  have wh: "0 < P"
    unfolding P_def using assms(1,2) by (rule mult_pos_pos)
  have "w * 1 \<le> w * h"
    using assms(1,2) by (intro mult_left_mono) simp_all
  then have "w \<le> P"
    by (simp add: P_def)
  then have w: "w < 4294967296"
    using P4 by linarith
  have "1 * h \<le> w * h"
    using assms(1,2) by (intro mult_right_mono) simp_all
  then have "h \<le> P"
    by (simp add: P_def)
  then have h: "h < 4294967296"
    using P4 by linarith
  have uw: "to_uint32 w = nat w"
    unfolding to_uint32_def using assms(1) w by (simp add: mod_pos_pos_trivial)
  have uh: "to_uint32 h = nat h"
    unfolding to_uint32_def using assms(2) h by (simp add: mod_pos_pos_trivial)
  show "0 < to_uint32 w" "0 < to_uint32 h"
    using assms(1,2) uw uh by simp_all
  have a: "to_int32 P = P"
    using wh P4 by (intro to_int32_id) simp_all
  have b: "to_int32 (P * 4) = P * 4"
    using wh P4 by (intro to_int32_id) simp_all
  have "0 \<le> P * 4" "P * 4 < 18446744073709551616"
    using wh P4 by linarith+
  then have "to_size_t (P * 4) = nat (P * 4)"
    unfolding to_size_t_def by (simp add: mod_pos_pos_trivial)
  then have "rgba_size_of w h = nat (P * 4)"
    unfolding rgba_size_of_def P_def [symmetric] a b .
  also have "\<dots> = nat w * nat h * 4"
    using assms(1,2) by (simp add: P_def nat_mult_distrib)
  finally show "rgba_size_of w h = to_uint32 w * to_uint32 h * 4"
    by (simp add: uw uh)
qed

lemma rgba_size_640_360: "rgba_size_of 640 360 = 921600"
  by (simp add: rgba_size_of_def to_int32_def to_size_t_def)

lemma rgba_size_1280_720: "rgba_size_of 1280 720 = 3686400"
  by (simp add: rgba_size_of_def to_int32_def to_size_t_def)

subsection \<open>The example codec\<close>

lemma access_unit_converted:
  "convert_mp4_nal_units_to_annex_b always_alloc access_unit = Inr [0, 0, 0, 1, 0x65]"
  by (simp add: convert_mp4_nal_units_to_annex_b_def always_alloc_def convert_loop.simps
      read_be32_def start_code_def access_unit_def)

lemma software_decode_example:
  "0 \<le> h \<Longrightarrow>
   software_decode_frame (decoded_frame_env w h) d access_unit pts c =
     (True, store_decoded_frame
        (c\<lparr>vaapi_context := Some (d\<lparr>sws_ctx :=
          Some (case sws_ctx d of None \<Rightarrow> converter_for w h | Some s \<Rightarrow> s)\<rparr>)\<rparr>)
        (Some (Buffer (rgba_size_of w h))) (rgba_size_of w h) (to_uint32 w) (to_uint32 h))"
  by (cases "sws_ctx d"; cases d)
    (simp_all add: software_decode_frame_def decoded_frame_env_def access_unit_converted
      bzalloc_def always_alloc_def Let_def converter_for_def)

lemma on_video_software:
  "active c \<Longrightarrow> vaapi_context c = Some d \<Longrightarrow> va_display d = None \<Longrightarrow> codec_ctx d = Some k \<Longrightarrow>
   0 \<le> h \<Longrightarrow>
   on_video (decoded_frame_env w h) c access_unit pts keyframe =
     store_decoded_frame
       (c\<lparr>vaapi_context := Some (d\<lparr>sws_ctx :=
          Some (case sws_ctx d of None \<Rightarrow> converter_for w h | Some s \<Rightarrow> s)\<rparr>)\<rparr>)
       (Some (Buffer (rgba_size_of w h))) (rgba_size_of w h) (to_uint32 w) (to_uint32 h)"
  by (simp add: on_video_def vaapi_decoder_decode_def software_decode_example)

section \<open>Properties of the lifecycle\<close>

subsection \<open>What activate and deactivate change\<close>

lemma vaapi_decoder_destroy_eq:
  "vaapi_decoder_destroy c = c\<lparr>vaapi_context := None\<rparr>"
  by (cases "vaapi_context c") (simp_all add: vaapi_decoder_destroy_def)

lemma software_fallback_only_decoder:
  "software_fallback env d c = (ok, c') \<Longrightarrow> \<exists>x. c' = c\<lparr>vaapi_context := x\<rparr>"
  by (auto simp add: software_fallback_def split: if_splits option.splits)

lemma vaapi_decoder_init_only_decoder:
  "vaapi_decoder_init env c = (ok, c') \<Longrightarrow> \<exists>x. c' = c\<lparr>vaapi_context := x\<rparr>"
  by (auto simp add: vaapi_decoder_init_def split: prod.splits bool.splits
      dest: software_fallback_only_decoder)

lemma activate_cleanup_eq:
  "activate_cleanup c =
     (c\<lparr>subscription_id := min (subscription_id c) 0, session_id := min (session_id c) 0,
        vaapi_context := None\<rparr>,
      (if subscription_id c > 0 then [Call_moq_subscribe_close (subscription_id c)] else [])
      @ (if session_id c > 0 then [Call_moq_session_close (session_id c)] else []))"
  by (cases c)
    (simp add: activate_cleanup_def close_subscription_def close_session_def
      audio_decoder_destroy_def vaapi_decoder_destroy_eq min_def)

lemma activate_staging:
  "hang_source_activate env c = (c', ev) \<Longrightarrow> staging c' = staging c"
  by (auto simp add: hang_source_activate_def Let_def activate_cleanup_eq audio_decoder_init_def
      staging_def slot_def
      split: option.splits if_splits prod.splits bool.splits
      dest!: vaapi_decoder_init_only_decoder)

lemma activate_ids:
  "hang_source_activate env c = (c', ev) \<Longrightarrow> \<not> active c \<Longrightarrow>
   session_id c \<le> 0 \<Longrightarrow> subscription_id c \<le> 0 \<Longrightarrow>
   (if active c' then 0 < session_id c' \<and> 0 < subscription_id c'
    else session_id c' \<le> 0 \<and> subscription_id c' \<le> 0)"
  by (auto simp add: hang_source_activate_def Let_def activate_cleanup_eq audio_decoder_init_def
      split: option.splits if_splits prod.splits bool.splits
      dest!: vaapi_decoder_init_only_decoder)

lemma activate_active: "active c \<Longrightarrow> hang_source_activate env c = (c, [])"
  by (auto simp add: hang_source_activate_def split: option.splits)

lemma deactivate_inactive: "\<not> active c \<Longrightarrow> hang_source_deactivate c = (c, [])"
  by (simp add: hang_source_deactivate_def)

lemma deactivate_active:
  "active c \<Longrightarrow>
   fst (hang_source_deactivate c) =
     c\<lparr>active := False, subscription_id := min (subscription_id c) 0,
       session_id := min (session_id c) 0, vaapi_context := None,
       current_frame_data := None,
       current_frame_size := (if current_frame_data c = None then current_frame_size c else 0),
       current_frame_width := (if current_frame_data c = None then current_frame_width c else 0),
       current_frame_height := (if current_frame_data c = None then current_frame_height c else 0),
       frame_queue := [], audio_queue := []\<rparr>"
  by (cases c)
    (simp add: hang_source_deactivate_def close_subscription_def close_session_def
      audio_decoder_destroy_def vaapi_decoder_destroy_eq Let_def min_def)

lemma deactivate_clears:
  assumes "idle_invariant c"
  shows "\<not> active (fst (hang_source_deactivate c))"
    "slot (fst (hang_source_deactivate c)) = (None, 0, 0, 0)"
    "frame_queue (fst (hang_source_deactivate c)) = []"
    "audio_queue (fst (hang_source_deactivate c)) = []"
    "session_id (fst (hang_source_deactivate c)) \<le> 0"
    "subscription_id (fst (hang_source_deactivate c)) \<le> 0"
    "active c \<Longrightarrow> session_id (fst (hang_source_deactivate c)) = 0"
    "active c \<Longrightarrow> subscription_id (fst (hang_source_deactivate c)) = 0"
  using assms
  by (cases "active c"; simp add: deactivate_inactive deactivate_active idle_invariant_def slot_def)+

subsection \<open>The invariant of reachable contexts\<close>

lemma idle_invariant_deactivate:
  "idle_invariant c \<Longrightarrow> idle_invariant (fst (hang_source_deactivate c))"
  using deactivate_clears [of c]
  by (simp add: idle_invariant_def slot_def)

lemma idle_invariant_activate:
  assumes "idle_invariant c"
  shows "idle_invariant (fst (hang_source_activate env c))"
proof (cases "active c")
  case True
  with assms show ?thesis by (simp add: activate_active)
next
  case False
  obtain c' ev where run: "hang_source_activate env c = (c', ev)"
    by (cases "hang_source_activate env c")
  from activate_staging [OF run] have "slot c' = slot c" "frame_queue c' = frame_queue c"
    "audio_queue c' = audio_queue c"
    by (simp_all add: staging_def)
  moreover from activate_ids [OF run False] assms False
  have "if active c' then 0 < session_id c' \<and> 0 < subscription_id c'
    else session_id c' \<le> 0 \<and> subscription_id c' \<le> 0"
    by (simp add: idle_invariant_def)
  ultimately show ?thesis
    using assms False run by (simp add: idle_invariant_def slot_def)
qed

lemma idle_invariant_strings:
  "idle_invariant (c\<lparr>url := u, broadcast_path := b\<rparr>) = idle_invariant c"
  by (simp add: idle_invariant_def)

lemma idle_invariant_update:
  assumes "idle_invariant c"
  shows "idle_invariant (fst (hang_source_update env c settings))"
proof -
  let ?c2 = "(fst (hang_source_deactivate c))\<lparr>url := Some (obs_data_get_string settings ''url''),
      broadcast_path := Some (obs_data_get_string settings ''broadcast'')\<rparr>"
  have c2: "idle_invariant ?c2"
    using idle_invariant_deactivate [OF assms] by (simp only: idle_invariant_strings)
  have "fst (hang_source_update env c settings) = c
      \<or> fst (hang_source_update env c settings) = ?c2
      \<or> fst (hang_source_update env c settings) = fst (hang_source_activate env ?c2)"
    by (simp add: hang_source_update_def Let_def split_beta)
  then show ?thesis
    using assms c2 idle_invariant_activate [OF c2, of env] by auto
qed

lemma idle_invariant_create: "idle_invariant (fst (hang_source_create env settings))"
proof -
  have "idle_invariant (zeroed_context\<lparr>current_frame_data := None, current_frame_size := 0,
      current_frame_width := 0, current_frame_height := 0,
      frame_queue_cap := 16, frame_queue := [], audio_queue_cap := 16, audio_queue := []\<rparr>)"
    by (simp add: idle_invariant_def zeroed_context_def)
  then show ?thesis
    unfolding hang_source_create_def Let_def by (rule idle_invariant_update)
qed

lemma idle_invariant_render:
  "idle_invariant c \<Longrightarrow> idle_invariant (hang_source_video_render env c)"
  by (simp add: hang_source_video_render_def idle_invariant_def)

lemma idle_invariant_on_video:
  assumes "idle_invariant c"
  shows "idle_invariant (on_video env c data pts keyframe)"
proof (cases "active c")
  case False
  with assms show ?thesis by (simp add: on_video_def)
next
  case True
  obtain r c' where run: "vaapi_decoder_decode env c data pts keyframe = (r, c')"
    by (cases "vaapi_decoder_decode env c data pts keyframe")
  from decode_keeps_lifecycle [OF run] assms True
  have "idle_invariant c'"
    by (auto simp add: idle_invariant_def slot_def)
  with True run show ?thesis by (simp add: on_video_def)
qed

lemma idle_invariant_on_audio:
  "idle_invariant c \<Longrightarrow> idle_invariant (on_audio env c data pts)"
  by (auto simp add: on_audio_def audio_decoder_decode_def idle_invariant_def
      split: option.splits)

lemma reachable_idle_invariant: "reachable P c \<Longrightarrow> idle_invariant c"
  by (induction rule: reachable.induct)
    (simp_all add: idle_invariant_create idle_invariant_update idle_invariant_activate
      idle_invariant_deactivate idle_invariant_render idle_invariant_on_video
      idle_invariant_on_audio)

subsection \<open>The invariant of the latest-frame slot, operation by operation\<close>

lemma slot_invariant_slot: "slot c' = slot c \<Longrightarrow> slot_invariant c' = slot_invariant c"
  by (simp add: slot_invariant_def slot_def)

lemma slot_invariant_decode:
  assumes "slot_invariant c" "codec_contract env"
    "vaapi_decoder_decode env c data pts keyframe = (r, c')"
  shows "slot_invariant c'"
proof (cases r)
  case False
  with decode_slot [OF assms(3)] have "slot c' = slot c"
    by simp
  from slot_invariant_slot [OF this] assms(1) show ?thesis
    by simp
next
  case True
  with decode_slot [OF assms(3)] have
    s: "slot c' = (Some (Buffer (rgba_size_of (frame_width env) (frame_height env))),
                    rgba_size_of (frame_width env) (frame_height env),
                    to_uint32 (frame_width env), to_uint32 (frame_height env))"
    and "0 \<le> avcodec_receive_frame_result env"
    by simp_all
  with assms(2) have "0 < frame_width env" "0 < frame_height env"
    "frame_width env * frame_height env * 4 < 2 ^ 31"
    by (simp_all add: codec_contract_def)
  from rgba_size_exact [OF this] s show ?thesis
    by (simp add: slot_invariant_def slot_def)
qed

lemma slot_invariant_on_video:
  "slot_invariant c \<Longrightarrow> codec_contract env \<Longrightarrow>
   slot_invariant (on_video env c data pts keyframe)"
  using slot_invariant_decode [of c env data pts keyframe
      "fst (vaapi_decoder_decode env c data pts keyframe)"
      "snd (vaapi_decoder_decode env c data pts keyframe)"]
  by (simp add: on_video_def)

lemma slot_invariant_deactivate:
  "slot_invariant c \<Longrightarrow> slot_invariant (fst (hang_source_deactivate c))"
  by (cases "active c")
    (simp_all add: deactivate_inactive deactivate_active slot_invariant_def)

lemma slot_invariant_activate:
  "slot_invariant (fst (hang_source_activate env c)) = slot_invariant c"
proof -
  have "slot (fst (hang_source_activate env c)) = slot c"
    using activate_staging [of env c "fst (hang_source_activate env c)"
        "snd (hang_source_activate env c)"]
    by (simp add: staging_def)
  then show ?thesis
    by (rule slot_invariant_slot)
qed

lemma slot_invariant_update:
  assumes "slot_invariant c"
  shows "slot_invariant (fst (hang_source_update env c settings))"
proof -
  let ?c2 = "(fst (hang_source_deactivate c))\<lparr>url := Some (obs_data_get_string settings ''url''),
      broadcast_path := Some (obs_data_get_string settings ''broadcast'')\<rparr>"
  have "slot ?c2 = slot (fst (hang_source_deactivate c))"
    by (simp add: slot_def)
  from slot_invariant_slot [OF this] have c2: "slot_invariant ?c2"
    using slot_invariant_deactivate [OF assms] by simp
  have "fst (hang_source_update env c settings) = c
      \<or> fst (hang_source_update env c settings) = ?c2
      \<or> fst (hang_source_update env c settings) = fst (hang_source_activate env ?c2)"
    by (simp add: hang_source_update_def Let_def split_beta)
  then show ?thesis
    using assms c2 slot_invariant_activate [of env ?c2] by auto
qed

lemma slot_invariant_create: "slot_invariant (fst (hang_source_create env settings))"
proof -
  have "slot_invariant (zeroed_context\<lparr>current_frame_data := None, current_frame_size := 0,
      current_frame_width := 0, current_frame_height := 0,
      frame_queue_cap := 16, frame_queue := [], audio_queue_cap := 16, audio_queue := []\<rparr>)"
    by (simp add: slot_invariant_def)
  then show ?thesis
    unfolding hang_source_create_def Let_def by (rule slot_invariant_update)
qed

lemma slot_invariant_render:
  "slot_invariant c \<Longrightarrow> slot_invariant (hang_source_video_render env c)"
  by (simp add: hang_source_video_render_def slot_invariant_def)

lemma slot_invariant_on_audio:
  "slot_invariant c \<Longrightarrow> slot_invariant (on_audio env c data pts)"
  by (auto simp add: on_audio_def audio_decoder_decode_def slot_invariant_def
      split: option.splits)

subsection \<open>Finding a substring\<close>

lemma strstr_None_iff: "strstr h n = None \<longleftrightarrow> \<not> sublist n h"
  by (induction h) (auto simp add: sublist_Cons_right)

lemma strstr_at_end:
  "n \<noteq> [] \<Longrightarrow> \<not> sublist n (pre @ butlast n) \<Longrightarrow> strstr (pre @ n) n = Some n"
proof (induction pre)
  case Nil
  then show ?case by (cases n) simp_all
next
  case (Cons p ps)
  have n: "n = butlast n @ [last n]"
    using Cons.prems(1) by simp
  have no_later: "\<not> sublist n (ps @ butlast n)"
    using Cons.prems(2) by (simp add: sublist_Cons_right)
  have "\<not> prefix n ((p # ps @ butlast n) @ [last n])"
  proof
    assume "prefix n ((p # ps @ butlast n) @ [last n])"
    then have "n = (p # ps @ butlast n) @ [last n] \<or> prefix n (p # ps @ butlast n)"
      by (simp only: prefix_snoc)
    then show False
    proof
      assume "n = (p # ps @ butlast n) @ [last n]"
      then have "length n = length ((p # ps @ butlast n) @ [last n])"
        by simp
      then show False
        using Cons.prems(1) by simp
    next
      assume "prefix n (p # ps @ butlast n)"
      then have "sublist n (p # ps @ butlast n)"
        by (rule prefix_imp_sublist)
      with Cons.prems(2) show False by simp
    qed
  qed
  then have "\<not> prefix n (p # ps @ n)"
    using n by (metis append_Cons append_assoc)
  then show ?case
    using Cons.IH [OF Cons.prems(1) no_later] by simp
qed

lemma no_scheme: "\<not> sublist ''://'' ''no-scheme''"
  using strstr_None_iff [of "''no-scheme''" "''://''"] by simp

subsection \<open>The example contexts, evaluated\<close>

lemma init_software_only:
  "vaapi_decoder_init software_only_env c
     = (True, c\<lparr>vaapi_context := Some (zeroed_decoder\<lparr>codec_ctx := Some 1\<rparr>)\<rparr>)"
  by (simp add: vaapi_decoder_init_def vaapi_init_display_def software_fallback_def
      software_only_env_def zeroed_decoder_def)

lemma activate_software_only:
  "\<not> active c \<Longrightarrow> url c = Some ''https://relay.example/moq'' \<Longrightarrow>
   broadcast_path c = Some ''demo/track'' \<Longrightarrow>
   fst (hang_source_activate software_only_env c)
     = c\<lparr>session_id := 7, vaapi_context := Some (zeroed_decoder\<lparr>codec_ctx := Some 1\<rparr>),
         subscription_id := 3, active := True\<rparr>"
  by (simp add: hang_source_activate_def init_software_only audio_decoder_init_def Let_def)
    (simp add: software_only_env_def)

lemma example_settings_strings:
  "obs_data_get_string example_settings ''url'' = ''https://relay.example/moq''"
  "obs_data_get_string example_settings ''broadcast'' = ''demo/track''"
  by (simp_all add: example_settings_def obs_data_get_string_def)

lemma update_fresh:
  "\<not> active c \<Longrightarrow> url c = None \<Longrightarrow>
   fst (hang_source_update software_only_env c example_settings)
     = fst (hang_source_activate software_only_env
         (c\<lparr>url := Some ''https://relay.example/moq'', broadcast_path := Some ''demo/track''\<rparr>))"
  by (simp add: hang_source_update_def example_settings_strings deactivate_inactive
      Let_def split_beta)

lemma example_session_eq:
  "example_session =
     \<lparr>url = Some ''https://relay.example/moq'', broadcast_path = Some ''demo/track'',
      active = True, session_id = 7, subscription_id = 3,
      vaapi_context = Some (zeroed_decoder\<lparr>codec_ctx := Some 1\<rparr>),
      current_frame_data = None, current_frame_size = 0, current_frame_width = 0,
      current_frame_height = 0, frame_queue_cap = 16, frame_queue = [],
      audio_queue_cap = 16, audio_queue = [], texture = None, width = 0, height = 0\<rparr>"
  unfolding example_session_def hang_source_create_def Let_def
  by (subst update_fresh; (subst activate_software_only)?; simp add: zeroed_context_def)

lemma fresh_context_eq:
  "zeroed_context\<lparr>current_frame_data := None, current_frame_size := 0,
      current_frame_width := 0, current_frame_height := 0,
      frame_queue_cap := 16, frame_queue := [], audio_queue_cap := 16, audio_queue := []\<rparr>
   = zeroed_context\<lparr>frame_queue_cap := 16, audio_queue_cap := 16\<rparr>"
  by (simp add: zeroed_context_def)

lemma create_unconfigured:
  "obs_data_get_string settings ''broadcast'' = [] \<Longrightarrow>
   hang_source_create env settings =
     (zeroed_context\<lparr>frame_queue_cap := 16, audio_queue_cap := 16,
        url := Some (obs_data_get_string settings ''url''), broadcast_path := Some []\<rparr>, [])"
  unfolding hang_source_create_def Let_def fresh_context_eq
  by (simp add: hang_source_update_def deactivate_inactive zeroed_context_def Let_def)

lemma unconfigured_session_eq:
  "unconfigured_session =
     zeroed_context\<lparr>frame_queue_cap := 16, audio_queue_cap := 16,
        url := Some ''no-scheme'', broadcast_path := Some []\<rparr>"
  unfolding unconfigured_session_def
  by (subst create_unconfigured)
    (simp_all add: no_scheme_no_broadcast_settings_def obs_data_get_string_def)

lemma no_scheme_session_eq:
  "no_scheme_session =
     zeroed_context\<lparr>frame_queue_cap := 16, audio_queue_cap := 16,
        url := Some ''no-scheme'', broadcast_path := Some ''demo/track''\<rparr>"
proof -
  let ?c = "zeroed_context\<lparr>frame_queue_cap := 16, audio_queue_cap := 16,
        url := Some ''no-scheme'', broadcast_path := Some ''demo/track''\<rparr>"
  have "strstr ''no-scheme'' ''://'' = None"
    by simp
  then have "fst (hang_source_activate software_only_env ?c) = ?c"
    by (simp add: hang_source_activate_def zeroed_context_def)
  moreover have "no_scheme_session = fst (hang_source_activate software_only_env ?c)"
    unfolding no_scheme_session_def hang_source_create_def Let_def fresh_context_eq
    by (simp add: hang_source_update_def deactivate_inactive zeroed_context_def Let_def
        no_scheme_settings_def obs_data_get_string_def split_beta)
  ultimately show ?thesis by simp
qed

lemma blank_session_eq:
  "blank_session =
     zeroed_context\<lparr>frame_queue_cap := 16, audio_queue_cap := 16,
        url := Some [], broadcast_path := Some []\<rparr>"
  unfolding blank_session_def
  by (subst create_unconfigured) (simp_all add: obs_data_get_string_def)

lemma staged_session_eq:
  "staged_session =
     example_session\<lparr>vaapi_context :=
         Some (zeroed_decoder\<lparr>codec_ctx := Some 1, sws_ctx := Some (converter_for 640 360)\<rparr>),
       current_frame_data := Some (Buffer 921600), current_frame_size := 921600,
       current_frame_width := 640, current_frame_height := 360\<rparr>"
  unfolding staged_session_def
  by (subst on_video_software [where d = "zeroed_decoder\<lparr>codec_ctx := Some 1\<rparr>" and k = 1])
    (simp_all add: example_session_eq zeroed_decoder_def store_decoded_frame_def
      rgba_size_640_360 to_uint32_def)

lemma resized_session_eq:
  "resized_session =
     example_session\<lparr>vaapi_context :=
         Some (zeroed_decoder\<lparr>codec_ctx := Some 1, sws_ctx := Some (converter_for 640 360)\<rparr>),
       current_frame_data := Some (Buffer 3686400), current_frame_size := 3686400,
       current_frame_width := 1280, current_frame_height := 720\<rparr>"
  unfolding resized_session_def
  by (subst on_video_software [where d = "zeroed_decoder\<lparr>codec_ctx := Some 1,
        sws_ctx := Some (converter_for 640 360)\<rparr>" and k = 1])
    (simp_all add: staged_session_eq example_session_eq zeroed_decoder_def store_decoded_frame_def
      rgba_size_1280_720 to_uint32_def)

lemma rgba_size_32768_32769: "rgba_size_of 32768 32769 = 131072"
  by (simp add: rgba_size_of_def to_int32_def to_size_t_def)

lemma rgba_size_0_360: "rgba_size_of 0 360 = 0"
  by (simp add: rgba_size_of_def to_int32_def to_size_t_def)

lemma oversized_session_slot:
  "slot oversized_session = (Some (Buffer 131072), 131072, 32768, 32769)"
  unfolding oversized_session_def
  by (subst on_video_software [where d = "zeroed_decoder\<lparr>codec_ctx := Some 1\<rparr>" and k = 1])
    (simp_all add: example_session_eq zeroed_decoder_def store_decoded_frame_def
      rgba_size_32768_32769 to_uint32_def slot_def)

lemma flat_session_slot:
  "slot flat_session = (Some (Buffer 0), 0, 0, 360)"
  unfolding flat_session_def
  by (subst on_video_software [where d = "zeroed_decoder\<lparr>codec_ctx := Some 1\<rparr>" and k = 1])
    (simp_all add: example_session_eq zeroed_decoder_def store_decoded_frame_def
      rgba_size_0_360 to_uint32_def slot_def)

lemma reachable_example_video:
  "P denv \<Longrightarrow> reachable P (on_video denv example_session data pts keyframe)"
  unfolding example_session_def
  by (intro reachable.video reachable.created)

lemma reachable_staged_session:
  "P (decoded_frame_env 640 360) \<Longrightarrow> reachable P staged_session"
  unfolding staged_session_def example_session_def
  by (intro reachable.video reachable.created)

section \<open>Claims about the decoder and the lifecycle\<close>

text \<open>
  C3, as the code has it. The decoder stages the dimensions the codec reports without
  checking them. As long as every frame the codec has handed out had positive width and
  height and a width \<times> height \<times> 4 below \<open>2^31\<close> (\<open>codec_contract\<close>), every reachable
  context has the invariant: a non-null buffer in the latest-frame slot comes with a stored
  size of width \<times> height \<times> 4 and with positive width and height. It is kept by every
  operation that writes the slot: \<open>create\<close> (zeroed), \<open>deactivate\<close> (flushed) and the
  decoder (such a frame staged).
\<close>

theorem latest_frame_slot_invariant:
  "reachable codec_contract c \<Longrightarrow> slot_invariant c"
  by (induction rule: reachable.induct)
    (simp_all add: slot_invariant_create slot_invariant_update slot_invariant_activate
      slot_invariant_deactivate slot_invariant_render slot_invariant_on_video
      slot_invariant_on_audio)

theorem latest_frame_slot_invariant_witness:
  "slot staged_session = (Some (Buffer 921600), 921600, 640, 360)
   \<and> slot_invariant staged_session"
proof -
  have "reachable codec_contract staged_session"
    by (rule reachable_staged_session) (simp add: codec_contract_def decoded_frame_env_def)
  from latest_frame_slot_invariant [OF this]
  show ?thesis
    by (simp add: staged_session_eq slot_def)
qed

text \<open>
  Without that condition the invariant can break. For a frame of 32768 \<times> 32769 the
  product \<open>frame->width * frame->height * 4\<close> leaves the range of \<open>int\<close> and the stored
  size is 131072; for a frame of width 0 the buffer is staged with a width that is not
  positive. Both contexts are reachable when nothing is taken for granted of the codec.
\<close>

theorem slot_invariant_broken_by_unchecked_frame:
  "reachable any_codec oversized_session
   \<and> slot oversized_session = (Some (Buffer 131072), 131072, 32768, 32769)
   \<and> \<not> slot_invariant oversized_session
   \<and> reachable any_codec flat_session
   \<and> slot flat_session = (Some (Buffer 0), 0, 0, 360)
   \<and> \<not> slot_invariant flat_session"
proof -
  have "reachable any_codec oversized_session" "reachable any_codec flat_session"
    unfolding oversized_session_def flat_session_def
    by (rule reachable_example_video, simp add: any_codec_def)+
  moreover have "\<not> slot_invariant oversized_session"
    using oversized_session_slot by (simp add: slot_invariant_def slot_def)
  moreover have "\<not> slot_invariant flat_session"
    using flat_session_slot by (simp add: slot_invariant_def slot_def)
  ultimately show ?thesis
    using oversized_session_slot flat_session_slot by simp
qed

text \<open>
  C4. From every reachable context, \<open>deactivate\<close> returns a context that is inactive,
  whose latest-frame slot is empty (null buffer, zero size and dimensions), whose frame
  queue and audio queue are empty, and which holds no session and no subscription: neither
  id is positive, which is how the relay marks a valid id. Both ids are exactly 0 when the
  context was active. In a context that was already inactive \<open>deactivate\<close> returns at once,
  and the id fields keep what they had, 0 or the non-positive result of a connect or
  subscribe that failed.
\<close>

theorem deactivate_leaves_nothing_held:
  "reachable any_codec c \<Longrightarrow>
   (let c' = fst (hang_source_deactivate c)
    in \<not> active c' \<and> current_frame_data c' = None \<and> current_frame_size c' = 0
       \<and> current_frame_width c' = 0 \<and> current_frame_height c' = 0
       \<and> frame_queue c' = [] \<and> audio_queue c' = []
       \<and> session_id c' \<le> 0 \<and> subscription_id c' \<le> 0
       \<and> (active c \<longrightarrow> session_id c' = 0 \<and> subscription_id c' = 0))"
proof -
  assume "reachable any_codec c"
  then have "idle_invariant c"
    by (rule reachable_idle_invariant)
  from deactivate_clears [OF this] show ?thesis
    by (simp add: Let_def slot_def)
qed

theorem deactivate_leaves_nothing_held_witness:
  "active staged_session \<and> current_frame_data staged_session = Some (Buffer 921600)
   \<and> session_id staged_session = 7 \<and> subscription_id staged_session = 3
   \<and> (let c' = fst (hang_source_deactivate staged_session)
      in \<not> active c' \<and> current_frame_data c' = None \<and> current_frame_size c' = 0
         \<and> current_frame_width c' = 0 \<and> current_frame_height c' = 0
         \<and> frame_queue c' = [] \<and> audio_queue c' = []
         \<and> session_id c' = 0 \<and> subscription_id c' = 0)"
proof -
  have "reachable any_codec staged_session"
    by (rule reachable_staged_session) (simp add: any_codec_def)
  from deactivate_leaves_nothing_held [OF this]
  show ?thesis
    by (simp add: Let_def staged_session_eq example_session_eq)
qed

text \<open>
  C5, as the code has it. In an inactive context with a non-empty URL and a non-empty
  broadcast path, whose URL has no \<open>://\<close> or ends right after its first \<open>://\<close>,
  \<open>activate\<close> logs one error and returns: \<open>moq_session_connect\<close> is not called, and the
  context, with its session id, subscription id and inactive flag, is as before.
\<close>

theorem activate_rejects_bad_url:
  "\<not> active c \<Longrightarrow> url c = Some u \<Longrightarrow> u \<noteq> [] \<Longrightarrow> broadcast_path c = Some b \<Longrightarrow> b \<noteq> [] \<Longrightarrow>
   \<not> sublist ''://'' u \<or> (\<exists>pre. u = pre @ ''://'' \<and> \<not> sublist ''://'' (pre @ '':/'')) \<Longrightarrow>
   hang_source_activate env c =
     (c, [Log LOG_ERROR
            (if sublist ''://'' u then ''Invalid URL: %s (missing host)''
             else ''Invalid URL format: %s (must include scheme like https://)'')])"
proof -
  assume c: "\<not> active c" "url c = Some u" "u \<noteq> []" "broadcast_path c = Some b" "b \<noteq> []"
  assume "\<not> sublist ''://'' u \<or> (\<exists>pre. u = pre @ ''://'' \<and> \<not> sublist ''://'' (pre @ '':/''))"
  then show ?thesis
  proof
    assume no: "\<not> sublist ''://'' u"
    then have "strstr u ''://'' = None"
      by (simp add: strstr_None_iff)
    with c no show ?thesis
      by (simp add: hang_source_activate_def)
  next
    assume "\<exists>pre. u = pre @ ''://'' \<and> \<not> sublist ''://'' (pre @ '':/'')"
    then obtain pre where u: "u = pre @ ''://''" and first: "\<not> sublist ''://'' (pre @ '':/'')"
      by blast
    have "strstr (pre @ ''://'') ''://'' = Some ''://''"
      using first by (intro strstr_at_end) simp_all
    moreover have "sublist ''://'' u"
      unfolding u by (rule sublist_append_leftI)
    ultimately show ?thesis
      using c u by (simp add: hang_source_activate_def)
  qed
qed

theorem activate_rejects_bad_url_witness:
  "hang_source_activate software_only_env no_scheme_session =
     (no_scheme_session,
      [Log LOG_ERROR ''Invalid URL format: %s (must include scheme like https://)''])"
proof -
  have "\<not> active no_scheme_session" "url no_scheme_session = Some ''no-scheme''"
    "''no-scheme'' \<noteq> []" "broadcast_path no_scheme_session = Some ''demo/track''"
    "''demo/track'' \<noteq> []"
    "\<not> sublist ''://'' ''no-scheme''
      \<or> (\<exists>pre. ''no-scheme'' = pre @ ''://'' \<and> \<not> sublist ''://'' (pre @ '':/''))"
    using no_scheme by (simp_all add: no_scheme_session_eq zeroed_context_def)
  from activate_rejects_bad_url [OF this, of software_only_env] no_scheme
  show ?thesis by simp
qed

text \<open>
  Without a broadcast path the same URL is not reported: the first test of \<open>activate\<close>
  returns before the URL is looked at, and nothing is logged.
\<close>

theorem activate_bad_url_without_broadcast_is_silent:
  "url unconfigured_session = Some ''no-scheme''
   \<and> \<not> sublist ''://'' ''no-scheme''
   \<and> \<not> active unconfigured_session
   \<and> hang_source_activate software_only_env unconfigured_session = (unconfigured_session, [])"
  unfolding unconfigured_session_eq
  using no_scheme by (simp add: hang_source_activate_def zeroed_context_def)

text \<open>
  C7. The converter is built once, for the first frame the decoder produces, and kept for
  every later frame. After a 640 \<times> 360 frame and then a 1280 \<times> 720 frame in the same
  session, the staged buffer has 1280 \<times> 720 \<times> 4 bytes, but the converter the second
  frame went through is still the one that targets 640 \<times> 360.
\<close>

theorem converter_kept_across_resize:
  "slot resized_session = (Some (Buffer (1280 * 720 * 4)), 1280 * 720 * 4, 1280, 720)
   \<and> map_option sws_ctx (vaapi_context resized_session) = Some (Some (converter_for 640 360))
   \<and> dstW (converter_for 640 360) = 640 \<and> dstH (converter_for 640 360) = 360"
  by (simp add: resized_session_eq slot_def converter_for_def)

text \<open>
  C8. In a context that holds a URL and a broadcast path, \<open>update\<close> with settings that
  carry the same two strings returns at once: the context (active flag, session id,
  subscription id, strings, staged frame, queued audio) is unchanged, and nothing is
  logged or sent to the relay.
\<close>

theorem update_unchanged_is_noop:
  "url c = Some u \<Longrightarrow> broadcast_path c = Some b \<Longrightarrow>
   obs_data_get_string settings ''url'' = u \<Longrightarrow>
   obs_data_get_string settings ''broadcast'' = b \<Longrightarrow>
   hang_source_update env c settings = (c, [])"
  by (simp add: hang_source_update_def)

theorem update_unchanged_is_noop_witness:
  "hang_source_update software_only_env example_session example_settings = (example_session, [])"
proof -
  have "url example_session = Some ''https://relay.example/moq''"
    "broadcast_path example_session = Some ''demo/track''"
    by (simp_all add: example_session_eq)
  from update_unchanged_is_noop [OF this example_settings_strings]
  show ?thesis .
qed

text \<open>
  C9. When the broadcast path or the URL is empty (or not set), \<open>activate\<close> returns at
  once: the context is unchanged, so it stays inactive and no decoder is initialised, and
  the trace is empty, so no session is opened and no error is logged.
\<close>

theorem activate_unconfigured_is_noop:
  "(case broadcast_path c of None \<Rightarrow> True | Some b \<Rightarrow> b = [])
     \<or> (case url c of None \<Rightarrow> True | Some u \<Rightarrow> u = []) \<Longrightarrow>
   hang_source_activate env c = (c, [])"
  by (auto simp add: hang_source_activate_def split: option.splits)

theorem activate_unconfigured_is_noop_witness:
  "\<not> active blank_session
   \<and> hang_source_activate software_only_env blank_session = (blank_session, [])"
proof -
  have "(case broadcast_path blank_session of None \<Rightarrow> True | Some b \<Rightarrow> b = [])
     \<or> (case url blank_session of None \<Rightarrow> True | Some u \<Rightarrow> u = [])"
    by (simp add: blank_session_eq)
  from activate_unconfigured_is_noop [OF this, of software_only_env]
  show ?thesis
    by (simp add: blank_session_eq zeroed_context_def)
qed

text \<open>
  C10. \<open>vaapi_decoder_decode\<close> returns \<open>true\<close> exactly when it has staged a frame: on
  \<open>true\<close> the slot holds the frame of this call (a buffer of the RGBA size, that size,
  the frame's width and height), on \<open>false\<close> the slot is as it was. It returns \<open>false\<close>
  when there is no decoder, when the decoder has a VA display (the placeholder hardware
  path), when the repacker rejects the unit, and when the codec hands out no frame.
\<close>

theorem decode_true_iff_frame_staged:
  "vaapi_decoder_decode env c data pts keyframe = (r, c') \<Longrightarrow>
   (r \<longrightarrow> slot c' = (Some (Buffer (rgba_size_of (frame_width env) (frame_height env))),
                    rgba_size_of (frame_width env) (frame_height env),
                    to_uint32 (frame_width env), to_uint32 (frame_height env)))
   \<and> (\<not> r \<longrightarrow> slot c' = slot c)
   \<and> (vaapi_context c = None \<longrightarrow> \<not> r)
   \<and> ((\<exists>d. vaapi_context c = Some d \<and> va_display d \<noteq> None) \<longrightarrow> \<not> r)
   \<and> (isl (convert_mp4_nal_units_to_annex_b (bzalloc_ok env) data) \<longrightarrow> \<not> r)
   \<and> (avcodec_receive_frame_result env < 0 \<longrightarrow> \<not> r)"
proof (cases "vaapi_context c")
  case None
  assume "vaapi_decoder_decode env c data pts keyframe = (r, c')"
  with None show ?thesis
    by (auto simp add: vaapi_decoder_decode_def)
next
  case (Some decoder)
  assume run: "vaapi_decoder_decode env c data pts keyframe = (r, c')"
  show ?thesis
  proof (cases "va_display decoder \<noteq> None \<or> codec_ctx decoder = None")
    case True
    with Some run show ?thesis
      by (auto simp add: vaapi_decoder_decode_def vaapi_decode_frame_def split: if_splits)
  next
    case False
    with Some run have sw: "software_decode_frame env decoder data pts c = (r, c')"
      by (auto simp add: vaapi_decoder_decode_def)
    from software_decode_frame_slot [OF sw] software_decode_frame_true [of env decoder data pts c c']
      sw Some False
    show ?thesis
      by (cases r) auto
  qed
qed

theorem decode_true_iff_frame_staged_witness:
  "fst (vaapi_decoder_decode (decoded_frame_env 640 360) example_session access_unit 0 True)
   \<and> slot (snd (vaapi_decoder_decode (decoded_frame_env 640 360) example_session access_unit 0 True))
       = (Some (Buffer 921600), 921600, 640, 360)
   \<and> \<not> fst (vaapi_decoder_decode (decoded_frame_env 640 360) staged_session
              [0, 0, 0, 0x10, 0xAA, 0xBB] 1 False)
   \<and> slot (snd (vaapi_decoder_decode (decoded_frame_env 640 360) staged_session
              [0, 0, 0, 0x10, 0xAA, 0xBB] 1 False))
       = slot staged_session"
proof -
  let ?good = "vaapi_decoder_decode (decoded_frame_env 640 360) example_session access_unit 0 True"
  let ?bad = "vaapi_decoder_decode (decoded_frame_env 640 360) staged_session
      [0, 0, 0, 0x10, 0xAA, 0xBB] 1 False"
  have good: "fst ?good"
    by (simp add: vaapi_decoder_decode_def example_session_eq zeroed_decoder_def
        software_decode_example)
  have "convert_mp4_nal_units_to_annex_b always_alloc [0, 0, 0, 0x10, 0xAA, 0xBB]
      = Inl MalformedBitstream"
    by (simp add: convert_mp4_nal_units_to_annex_b_def always_alloc_def convert_loop.simps
        read_be32_def)
  then have malformed: "isl (convert_mp4_nal_units_to_annex_b
      (bzalloc_ok (decoded_frame_env 640 360)) [0, 0, 0, 0x10, 0xAA, 0xBB])"
    by (simp add: decoded_frame_env_def)
  from decode_true_iff_frame_staged [of "decoded_frame_env 640 360" example_session access_unit 0
      True "fst ?good" "snd ?good"] good
  have "slot (snd ?good) = (Some (Buffer 921600), 921600, 640, 360)"
    by (simp add: rgba_size_640_360 decoded_frame_env_def to_uint32_def)
  moreover from decode_true_iff_frame_staged [of "decoded_frame_env 640 360" staged_session
      "[0, 0, 0, 0x10, 0xAA, 0xBB]" 1 False "fst ?bad" "snd ?bad"] malformed
  have "\<not> fst ?bad \<and> slot (snd ?bad) = slot staged_session"
    by simp
  ultimately show ?thesis
    using good by simp
qed

end
